theory Spec2Isabelle
  imports Complex_Main "HOL-Library.Sublist" "HOL-Library.Char_ord" "HOL-Library.List_Lexorder"
begin

section \<open>JavaScript values shared by all modules\<close>

text \<open>
  Numbers are modelled as mathematical reals (rounding, infinities and NaN of IEEE doubles
  are outside the model, except where a function below says that \<open>None\<close> stands for NaN).
  Strings are lists of ASCII characters. An \<open>async\<close> function returns a promise: it is
  either rejected with an error (\<open>Inl\<close>) or fulfilled with a value (\<open>Inr\<close>); the same
  type is used for a synchronous function that can throw.
\<close>

type_synonym vec = "real list"

datatype error =
    DimensionMismatch nat nat
  | Expected384 nat
  | Expected1536 nat
  | UnexpectedEmbeddingSize nat
  | InvalidArrayLength
  | JsonSyntaxError
  | NoEmbeddingsAvailable
  | DatabaseQueryFailed
  | ProviderFailure

type_synonym 'a promise = "error + 'a"

definition await :: "'a promise \<Rightarrow> ('a \<Rightarrow> 'b promise) \<Rightarrow> 'b promise" where
  "await p k = (case p of Inl e \<Rightarrow> Inl e | Inr v \<Rightarrow> k v)"

text \<open>\<open>xs.map(f)\<close> with a callback that may throw: the first exception aborts the map.\<close>

fun map_throwing :: "('a \<Rightarrow> 'b promise) \<Rightarrow> 'a list \<Rightarrow> 'b list promise" where
  "map_throwing f [] = Inr []"
| "map_throwing f (x # xs) =
     (case f x of
        Inl e \<Rightarrow> Inl e
      | Inr y \<Rightarrow> (case map_throwing f xs of Inl e \<Rightarrow> Inl e | Inr ys \<Rightarrow> Inr (y # ys)))"

text \<open>
  \<open>xs.slice(0, e)\<close> for an integer \<open>e\<close>: a negative end counts from the end of the
  array, and the end is clamped to the bounds of the array.
\<close>

definition slice0 :: "int \<Rightarrow> 'a list \<Rightarrow> 'a list" where
  "slice0 e xs =
     (let len = int (length xs);
          final = (if e < 0 then max (len + e) 0 else min e len)
      in take (nat final) xs)"

text \<open>
  \<open>xs.sort(cmp)\<close>: the stable sort of ECMAScript 2019. An element is placed in front of
  the first element that the comparator does not put before it, and elements are inserted
  from the right, so that equal elements keep their order.
\<close>

fun insert_cmp :: "('a \<Rightarrow> 'a \<Rightarrow> real) \<Rightarrow> 'a \<Rightarrow> 'a list \<Rightarrow> 'a list" where
  "insert_cmp cmp x [] = [x]"
| "insert_cmp cmp x (y # ys) =
     (if cmp x y \<le> 0 then x # y # ys else y # insert_cmp cmp x ys)"

definition array_sort :: "('a \<Rightarrow> 'a \<Rightarrow> real) \<Rightarrow> 'a list \<Rightarrow> 'a list" where
  "array_sort cmp xs = foldr (insert_cmp cmp) xs []"

text \<open>\<open>v || 0\<close> on the result of \<open>Map.get\<close>.\<close>

definition or0 :: "real option \<Rightarrow> real" where
  "or0 v = (case v of None \<Rightarrow> 0 | Some x \<Rightarrow> x)"

text \<open>
  \<open>new Set(xs)\<close> and \<open>set.add(x)\<close>: a set keeps its elements in the order of their
  first insertion; \<open>[...set]\<close> lists them in that order.
\<close>

definition set_add :: "'a \<Rightarrow> 'a list \<Rightarrow> 'a list" where
  "set_add x acc = (if x \<in> set acc then acc else acc @ [x])"

definition new_Set :: "'a list \<Rightarrow> 'a list" where
  "new_Set xs = foldl (\<lambda>acc x. set_add x acc) [] xs"

text \<open>\<open>xs.indexOf(d)\<close>: the first index of \<open>d\<close>, or -1.\<close>

fun indexOf :: "'a list \<Rightarrow> 'a \<Rightarrow> int" where
  "indexOf [] d = - 1"
| "indexOf (x # xs) d =
     (if x = d then 0 else (let r = indexOf xs d in if r < 0 then - 1 else r + 1))"

text \<open>\<open>a % b\<close> on integers: the remainder takes the sign of the dividend.\<close>

definition js_rem :: "int \<Rightarrow> int \<Rightarrow> int" where
  "js_rem a b = (if 0 \<le> a then a mod \<bar>b\<bar> else - ((- a) mod \<bar>b\<bar>))"

text \<open>\<open>xs[i]\<close> for an integer \<open>i\<close>: undefined (\<open>None\<close>) outside the array.\<close>

definition at_index :: "'a list \<Rightarrow> int \<Rightarrow> 'a option" where
  "at_index xs i = (if 0 \<le> i \<and> i < int (length xs) then Some (xs ! nat i) else None)"

subsection \<open>Characters and the regular expressions \<open>\w\<close> and \<open>\s\<close>\<close>

definition toLowerChar :: "char \<Rightarrow> char" where
  "toLowerChar c =
     (case map_of (zip ''ABCDEFGHIJKLMNOPQRSTUVWXYZ'' ''abcdefghijklmnopqrstuvwxyz'') c of
        Some l \<Rightarrow> l
      | None \<Rightarrow> c)"

definition toLowerCase :: "string \<Rightarrow> string" where
  "toLowerCase s = map toLowerChar s"

definition is_word :: "char \<Rightarrow> bool" where
  "is_word c =
     (c \<in> set ''abcdefghijklmnopqrstuvwxyzABCDEFGHIJKLMNOPQRSTUVWXYZ0123456789_'')"

definition is_space :: "char \<Rightarrow> bool" where
  "is_space c = (c \<in> set [CHR '' '', CHR 0x09, CHR 0x0A, CHR 0x0B, CHR 0x0C, CHR 0x0D])"

text \<open>\<open>s.replace(/[^\w\s]/g, ' ')\<close>\<close>

definition strip_punctuation :: "string \<Rightarrow> string" where
  "strip_punctuation s = map (\<lambda>c. if is_word c \<or> is_space c then c else CHR '' '') s"

text \<open>
  \<open>s.split(/\s+/)\<close>: the pieces between maximal runs of white space; a leading or
  trailing run leaves an empty piece, and the empty string splits into one empty piece.
\<close>

fun split_ws :: "string \<Rightarrow> string list" where
  "split_ws [] = [[]]"
| "split_ws (c # cs) =
     (if is_space c
      then (if cs \<noteq> [] \<and> is_space (hd cs) then split_ws cs else [] # split_ws cs)
      else (case split_ws cs of t # ts \<Rightarrow> (c # t) # ts | [] \<Rightarrow> [[c]]))"

text \<open>\<open>s.replace(/\s+/g, ' ')\<close>\<close>

fun collapse_ws :: "string \<Rightarrow> string" where
  "collapse_ws [] = []"
| "collapse_ws (c # cs) =
     (if is_space c
      then (if cs \<noteq> [] \<and> is_space (hd cs) then collapse_ws cs else CHR '' '' # collapse_ws cs)
      else c # collapse_ws cs)"

definition trim :: "string \<Rightarrow> string" where
  "trim s = rev (dropWhile is_space (rev (dropWhile is_space s)))"

section \<open>Data model\<close>

record faculty_info =
  faculty_id :: string
  name :: string
  title :: string
  school :: string
  department :: string

text \<open>
  The \<open>embedding\<close> column holds the JSON text of a number array, or is null. Reading it
  goes through \<open>JSON.parse\<close>, which throws on text that is not JSON.
\<close>

datatype stored_embedding = NoEmbedding | Unparsable | Embedding vec

record faculty_row = faculty_info +
  "keywords" :: string
  embedding :: stored_embedding

record similarity_result = faculty_info +
  similarity :: real

definition info_of :: "faculty_row \<Rightarrow> faculty_info" where
  "info_of f = \<lparr>faculty_id = faculty_id f, name = name f, title = title f,
                school = school f, department = department f\<rparr>"

definition with_similarity :: "'a faculty_info_scheme \<Rightarrow> real \<Rightarrow> similarity_result" where
  "with_similarity f s = \<lparr>faculty_id = faculty_id f, name = name f, title = title f,
                          school = school f, department = department f, similarity = s\<rparr>"

record options =
  maxResults :: "int option"
  minSimilarity :: "real option"
  filterSchool :: "string option"
  filterDepartment :: "string option"
  useAdvanced :: "bool option"

text \<open>JavaScript truthiness of an optional string: undefined and the empty string are falsy.\<close>

definition truthy :: "string option \<Rightarrow> bool" where
  "truthy v = (case v of None \<Rightarrow> False | Some s \<Rightarrow> s \<noteq> [])"

section \<open>The database client (QueryBuilder)\<close>

text \<open>
  A condition of the builder is \<open>{field, value, operator}\<close> with the operator \<open>=\<close>
  (pushed by \<open>eq\<close>) or \<open>IS NOT NULL\<close> (pushed by \<open>not(field, 'is', null)\<close>).
\<close>

datatype where_condition = Equals string string | IsNotNull string

record query_builder =
  selectFields :: string
  whereConditions :: "where_condition list"

text \<open>
  The environment of one request: the rows of the \<open>faculty\<close> table, the statements on
  which \<open>pool.query\<close> rejects, and the feature-extraction pipeline applied to cleaned
  text (a rejection covers a model that fails to load).
\<close>

record env =
  faculty_table :: "faculty_row list"
  query_rejects :: "query_builder \<Rightarrow> bool"
  pipeline :: "string \<Rightarrow> vec promise"

definition from_faculty :: query_builder where
  "from_faculty = \<lparr>selectFields = ''*'', whereConditions = []\<rparr>"

definition select :: "string \<Rightarrow> query_builder \<Rightarrow> query_builder" where
  "select columns q = q\<lparr>selectFields := columns\<rparr>"

definition eq :: "string \<Rightarrow> string \<Rightarrow> query_builder \<Rightarrow> query_builder" where
  "eq field v q = q\<lparr>whereConditions := whereConditions q @ [Equals field v]\<rparr>"

text \<open>\<open>q.not(field, 'is', null)\<close>\<close>

definition not_is_null :: "string \<Rightarrow> query_builder \<Rightarrow> query_builder" where
  "not_is_null field q = q\<lparr>whereConditions := whereConditions q @ [IsNotNull field]\<rparr>"

definition column :: "string \<Rightarrow> faculty_row \<Rightarrow> string option" where
  "column field f =
     (if field = ''faculty_id'' then Some (faculty_id f)
      else if field = ''name'' then Some (name f)
      else if field = ''title'' then Some (title f)
      else if field = ''school'' then Some (school f)
      else if field = ''department'' then Some (department f)
      else if field = ''keywords'' then Some (keywords f)
      else None)"

text \<open>Only the \<open>embedding\<close> column can be null (\<open>NoEmbedding\<close>).\<close>

definition is_null :: "string \<Rightarrow> faculty_row \<Rightarrow> bool" where
  "is_null field f = (field = ''embedding'' \<and> embedding f = NoEmbedding)"

definition row_matches :: "where_condition list \<Rightarrow> faculty_row \<Rightarrow> bool" where
  "row_matches conds f =
     list_all (\<lambda>c. case c of
                      Equals field v \<Rightarrow> column field f = Some v
                    | IsNotNull field \<Rightarrow> \<not> is_null field f)
              conds"

text \<open>
  \<open>execute()\<close> catches every error of the query and returns it beside null data:
  \<open>None\<close> is \<open>{data: null, error}\<close>, \<open>Some rows\<close> is \<open>{data: rows, error: null}\<close>.
\<close>

definition execute :: "env \<Rightarrow> query_builder \<Rightarrow> faculty_row list option" where
  "execute db q =
     (if query_rejects db q then None
      else Some (filter (row_matches (whereConditions q)) (faculty_table db)))"

text \<open>
  \<open>single()\<close> returns the first row or null; its callers test \<open>error || !data\<close>, so
  \<open>None\<close> stands for both an error and null data.
\<close>

definition single :: "env \<Rightarrow> query_builder \<Rightarrow> faculty_row option" where
  "single db q =
     (case execute db q of
        None \<Rightarrow> None
      | Some rows \<Rightarrow> (case rows of [] \<Rightarrow> None | r # _ \<Rightarrow> Some r))"

text \<open>
  \<open>await q\<close> on a builder on which neither \<open>execute()\<close> nor \<open>single()\<close> was called:
  the class \<open>QueryBuilder\<close> defines no \<open>then\<close> method, so the await yields the builder
  object itself, and the properties \<open>data\<close> and \<open>error\<close> that the caller reads from it
  are both undefined. No statement reaches the database. \<open>None\<close> is the undefined
  \<open>data\<close>.
\<close>

definition await_builder :: "env \<Rightarrow> query_builder \<Rightarrow> faculty_row list option" where
  "await_builder db q = None"

definition with_filters :: "string option \<Rightarrow> string option \<Rightarrow> query_builder \<Rightarrow> query_builder" where
  "with_filters fSchool fDepartment q =
     (let q1 = (if truthy fSchool then eq ''school'' (the fSchool) q else q)
      in if truthy fDepartment then eq ''department'' (the fDepartment) q1 else q1)"

section \<open>similarity.ts: the TF-IDF path\<close>

definition stop_words :: "string list" where
  "stop_words = [''the'', ''and'', ''for'', ''are'', ''but'', ''not'', ''you'', ''all'', ''can'',
     ''her'', ''was'', ''one'', ''our'', ''had'', ''but'', ''out'', ''day'', ''get'', ''has'',
     ''him'', ''his'', ''how'', ''its'', ''may'', ''new'', ''now'', ''old'', ''see'', ''two'',
     ''way'', ''who'', ''boy'', ''did'', ''man'', ''end'', ''few'', ''got'', ''let'', ''put'',
     ''say'', ''she'', ''too'', ''use'']"

definition tokenize :: "string \<Rightarrow> string list" where
  "tokenize text =
     filter (\<lambda>word. word \<notin> set stop_words)
       (filter (\<lambda>word. length word > 2)
         (split_ws (strip_punctuation (toLowerCase text))))"

definition count_up :: "string \<Rightarrow> (string \<rightharpoonup> real) \<Rightarrow> (string \<rightharpoonup> real)" where
  "count_up term m = m(term \<mapsto> or0 (m term) + 1)"

definition calculateTF :: "string list \<Rightarrow> (string \<rightharpoonup> real)" where
  "calculateTF tokens =
     (let totalTerms = real (length tokens);
          termFreq = fold count_up tokens Map.empty
      in (\<lambda>term. map_option (\<lambda>count. count / totalTerms) (termFreq term)))"

definition calculateIDF :: "string list list \<Rightarrow> (string \<rightharpoonup> real)" where
  "calculateIDF documents =
     (let totalDocs = real (length documents);
          termDocCount = fold (\<lambda>doc m. fold count_up (new_Set doc) m) documents Map.empty
      in (\<lambda>term. map_option (\<lambda>docCount. ln (totalDocs / docCount)) (termDocCount term)))"

text \<open>
  The vocabulary \<open>allTerms\<close> is a set of strings; \<open>Array.from(allTerms).sort()\<close>
  orders it by code units.
\<close>

definition calculateTFIDF :: "(string \<rightharpoonup> real) \<Rightarrow> (string \<rightharpoonup> real) \<Rightarrow> string list \<Rightarrow> vec" where
  "calculateTFIDF tf idf allTerms = map (\<lambda>term. or0 (tf term) * or0 (idf term)) (sort allTerms)"

definition vocabulary :: "string list list \<Rightarrow> string list" where
  "vocabulary docs = new_Set (concat docs)"

text \<open>
  The accumulation loop of both cosine functions; each of them enters it only with
  vectors of equal length.
\<close>

fun cosine_loop :: "vec \<Rightarrow> vec \<Rightarrow> real \<times> real \<times> real \<Rightarrow> real \<times> real \<times> real" where
  "cosine_loop (x # xs) (y # ys) (dotProduct, normA, normB) =
     cosine_loop xs ys (dotProduct + x * y, normA + x * x, normB + y * y)"
| "cosine_loop _ _ acc = acc"

text \<open>\<open>cosineSimilarity\<close> of similarity.ts.\<close>

definition cosineSimilarity_tfidf :: "vec \<Rightarrow> vec \<Rightarrow> real" where
  "cosineSimilarity_tfidf vectorA vectorB =
     (if length vectorA \<noteq> length vectorB then 0
      else (case cosine_loop vectorA vectorB (0, 0, 0) of
              (dotProduct, sumA, sumB) \<Rightarrow>
                (let normA = sqrt sumA; normB = sqrt sumB
                 in if normA = 0 \<or> normB = 0 then 0 else dotProduct / (normA * normB))))"

definition lexical_fields :: string where
  "lexical_fields = ''faculty_id, name, title, school, department, keywords''"

definition lexical_similarities ::
    "vec \<Rightarrow> (string \<rightharpoonup> real) \<Rightarrow> string list \<Rightarrow> real \<Rightarrow> faculty_row list \<Rightarrow> similarity_result list" where
  "lexical_similarities v idf allTerms minSim pool =
     filter (\<lambda>r. similarity r \<ge> minSim)
       (map (\<lambda>faculty.
               with_similarity faculty
                 (cosineSimilarity_tfidf v
                    (calculateTFIDF (calculateTF (tokenize (keywords faculty))) idf allTerms)))
            pool)"

definition by_similarity_desc :: "similarity_result \<Rightarrow> similarity_result \<Rightarrow> real" where
  "by_similarity_desc a b = similarity b - similarity a"

definition calculateSimilarFaculty :: "env \<Rightarrow> string \<Rightarrow> options \<Rightarrow> similarity_result list promise" where
  "calculateSimilarFaculty db targetFacultyId opts =
     (let maxR = (case maxResults opts of None \<Rightarrow> 10 | Some n \<Rightarrow> n);
          minSim = (case minSimilarity opts of None \<Rightarrow> 1 / 10 | Some m \<Rightarrow> m)
      in case execute db (with_filters (filterSchool opts) (filterDepartment opts)
                            (select lexical_fields from_faculty)) of
           None \<Rightarrow> Inr []
         | Some allFaculty \<Rightarrow>
             (case find (\<lambda>f. faculty_id f = targetFacultyId) allFaculty of
                None \<Rightarrow> Inr []
              | Some targetFaculty \<Rightarrow>
                  (let otherFaculty = filter (\<lambda>f. faculty_id f \<noteq> targetFacultyId) allFaculty;
                       allDocuments = map (\<lambda>f. tokenize (keywords f)) allFaculty;
                       targetTokens = tokenize (keywords targetFaculty);
                       allTerms = vocabulary allDocuments
                   in if allTerms = [] then Inr []
                      else (let idf = calculateIDF allDocuments;
                                targetVector = calculateTFIDF (calculateTF targetTokens) idf allTerms
                            in Inr (slice0 maxR
                                     (array_sort by_similarity_desc
                                        (lexical_similarities targetVector idf allTerms minSim
                                           otherFaculty)))))))"

definition searchSimilarFaculty :: "env \<Rightarrow> string \<Rightarrow> options \<Rightarrow> similarity_result list promise" where
  "searchSimilarFaculty db query opts =
     (let maxR = (case maxResults opts of None \<Rightarrow> 20 | Some n \<Rightarrow> n);
          minSim = (case minSimilarity opts of None \<Rightarrow> 1 / 10 | Some m \<Rightarrow> m)
      in case execute db (with_filters (filterSchool opts) (filterDepartment opts)
                            (select lexical_fields from_faculty)) of
           None \<Rightarrow> Inr []
         | Some allFaculty \<Rightarrow>
             (let queryTokens = tokenize query;
                  allDocuments = map (\<lambda>f. tokenize (keywords f)) allFaculty;
                  documentsWithQuery = queryTokens # allDocuments;
                  allTerms = vocabulary documentsWithQuery
              in if allTerms = [] then Inr []
                 else (let idf = calculateIDF documentsWithQuery;
                           queryVector = calculateTFIDF (calculateTF queryTokens) idf allTerms
                       in Inr (slice0 maxR
                                (array_sort by_similarity_desc
                                   (lexical_similarities queryVector idf allTerms minSim
                                      allFaculty))))))"

section \<open>transformers-embedding: the embedding provider and the dense primitives\<close>

definition cleanText :: "string \<Rightarrow> string" where
  "cleanText text = trim (strip_punctuation (collapse_ws (toLowerCase text)))"

definition generateEmbedding :: "env \<Rightarrow> string \<Rightarrow> vec promise" where
  "generateEmbedding db text =
     (let cleanedText = cleanText text
      in if cleanedText = [] then Inr (replicate 384 0) else pipeline db cleanedText)"

text \<open>
  \<open>generateEmbeddings\<close>: the cleaned texts that are not empty are sent to the pipeline in
  batches of eight, and the outputs are appended in order; a failing call rejects the
  whole batch. The result lists the outputs of the successive calls.
\<close>

definition generateEmbeddings :: "env \<Rightarrow> string list \<Rightarrow> vec list promise" where
  "generateEmbeddings db texts =
     (let cleanedTexts = filter (\<lambda>t. length t > 0) (map cleanText texts)
      in if cleanedTexts = [] then Inr (map (\<lambda>_. replicate 384 0) texts)
         else map_throwing (pipeline db) cleanedTexts)"

definition cosineSimilarity :: "vec \<Rightarrow> vec \<Rightarrow> real promise" where
  "cosineSimilarity a b =
     (if length a \<noteq> length b then Inl (DimensionMismatch (length a) (length b))
      else (case cosine_loop a b (0, 0, 0) of
              (dotProduct, normA, normB) \<Rightarrow>
                if normA = 0 \<or> normB = 0 then Inr 0
                else Inr (dotProduct / (sqrt normA * sqrt normB))))"

text \<open>
  \<open>findSimilar\<close>: a candidate is an item together with its embedding; the result pairs
  each kept item with its similarity.
\<close>

definition findSimilar :: "vec \<Rightarrow> ('a \<times> vec) list \<Rightarrow> int \<Rightarrow> real \<Rightarrow> ('a \<times> real) list promise" where
  "findSimilar queryEmbedding candidates topK minSim =
     await (map_throwing
              (\<lambda>(item, emb). await (cosineSimilarity queryEmbedding emb) (\<lambda>s. Inr (item, s)))
              candidates)
       (\<lambda>scored.
          Inr (slice0 topK
                (array_sort (\<lambda>a b. snd b - snd a)
                   (filter (\<lambda>item. snd item \<ge> minSim) scored))))"

definition padEmbeddingTo1536 :: "vec \<Rightarrow> vec promise" where
  "padEmbeddingTo1536 emb =
     (if length emb = 1536 then Inr emb
      else if length emb > 1536 then Inl InvalidArrayLength
      else Inr (emb @ replicate (1536 - length emb) 0))"

definition extractEmbeddingFrom1536 :: "vec \<Rightarrow> vec" where
  "extractEmbeddingFrom1536 emb = (if length emb = 384 then emb else take 384 emb)"

definition testText :: string where
  "testText = ''machine learning and artificial intelligence''"

definition testEmbeddingService :: "env \<Rightarrow> bool" where
  "testEmbeddingService db =
     (case generateEmbedding db testText of
        Inl _ \<Rightarrow> False
      | Inr emb \<Rightarrow>
          if length emb \<noteq> 384 then False
          else if foldl (\<lambda>a b. a + \<bar>b\<bar>) 0 emb = 0 then False
          else True)"

section \<open>advanced-similarity: the orchestrator\<close>

definition padEmbeddingTo1536Compat :: "vec \<Rightarrow> vec promise" where
  "padEmbeddingTo1536Compat embedding384 =
     (if length embedding384 \<noteq> 384 then Inl (Expected384 (length embedding384))
      else padEmbeddingTo1536 embedding384)"

definition extractReal384Embedding :: "vec \<Rightarrow> vec promise" where
  "extractReal384Embedding embedding1536 =
     (if length embedding1536 \<noteq> 1536 then Inl (Expected1536 (length embedding1536))
      else Inr (extractEmbeddingFrom1536 embedding1536))"

text \<open>
  The local copies of the two helpers in the earlier Python-backed service (the network
  route carries the same copy of the second one).
\<close>

definition padEmbeddingTo1536_local :: "vec \<Rightarrow> vec promise" where
  "padEmbeddingTo1536_local embedding384 =
     (if length embedding384 \<noteq> 384 then Inl (Expected384 (length embedding384))
      else Inr (embedding384 @ replicate (1536 - 384) 0))"

definition extractReal384Embedding_local :: "vec \<Rightarrow> vec promise" where
  "extractReal384Embedding_local embedding1536 =
     (if length embedding1536 \<noteq> 1536 then Inl (Expected1536 (length embedding1536))
      else Inr (take 384 embedding1536))"

definition testEmbeddingEnvironment :: "env \<Rightarrow> bool" where
  "testEmbeddingEnvironment db = testEmbeddingService db"

text \<open>
  \<open>findSimilarFaculty\<close> catches every error of its body and returns the empty list.
  \<open>facultyData[index]\<close> is undefined when \<open>facultyData\<close> is shorter than the list of
  embeddings; reading a field of it throws, which is caught as well.
\<close>

definition findSimilarFaculty ::
    "vec \<Rightarrow> vec list \<Rightarrow> faculty_info list \<Rightarrow> int \<Rightarrow> real \<Rightarrow> similarity_result list" where
  "findSimilarFaculty targetEmbedding allEmbeddings facultyData topK threshold =
     (if length facultyData < length allEmbeddings then []
      else (case findSimilar targetEmbedding (zip facultyData allEmbeddings) topK threshold of
              Inl _ \<Rightarrow> []
            | Inr results \<Rightarrow> map (\<lambda>(d, s). with_similarity d s) results))"

definition json_parse :: "stored_embedding \<Rightarrow> vec promise" where
  "json_parse e =
     (case e of
        Embedding v \<Rightarrow> Inr v
      | _ \<Rightarrow> Inl JsonSyntaxError)"

definition real_embedding :: "vec \<Rightarrow> vec promise" where
  "real_embedding emb =
     (if length emb = 1536 then extractReal384Embedding emb
      else if length emb = 384 then Inr emb
      else Inl (UnexpectedEmbeddingSize (length emb)))"

definition has_embedding :: "faculty_row \<Rightarrow> bool" where
  "has_embedding f = (embedding f \<noteq> NoEmbedding)"

definition dense_fields :: string where
  "dense_fields = ''faculty_id, name, title, school, department, keywords, embedding''"

definition rank_dense ::
    "vec \<Rightarrow> faculty_row list \<Rightarrow> int \<Rightarrow> real \<Rightarrow> similarity_result list promise" where
  "rank_dense queryEmbedding facultyWithEmbeddings maxR minSim =
     await (map_throwing (\<lambda>f. json_parse (embedding f)) facultyWithEmbeddings)
       (\<lambda>paddedEmbeddings.
          await (map_throwing real_embedding paddedEmbeddings)
            (\<lambda>realEmbeddings.
               Inr (findSimilarFaculty queryEmbedding realEmbeddings
                      (map info_of facultyWithEmbeddings) maxR minSim)))"

text \<open>The body of the \<open>try\<close> block of \<open>calculateAdvancedSimilarity\<close>.\<close>

definition calculate_dense ::
    "env \<Rightarrow> string \<Rightarrow> int \<Rightarrow> real \<Rightarrow> string option \<Rightarrow> string option
       \<Rightarrow> similarity_result list promise" where
  "calculate_dense db targetFacultyId maxR minSim fSchool fDepartment =
     (case single db (eq ''faculty_id'' targetFacultyId (select ''*'' from_faculty)) of
        None \<Rightarrow> Inr []
      | Some targetFaculty \<Rightarrow>
          (case execute db (with_filters fSchool fDepartment (select dense_fields from_faculty)) of
             None \<Rightarrow> Inr []
           | Some allFaculty \<Rightarrow>
               (let otherFaculty = filter (\<lambda>f. faculty_id f \<noteq> targetFacultyId) allFaculty;
                    facultyWithEmbeddings = filter has_embedding otherFaculty
                in if facultyWithEmbeddings = [] then Inl NoEmbeddingsAvailable
                   else await
                          (if has_embedding targetFaculty
                           then await (json_parse (embedding targetFaculty))
                                  (\<lambda>storedEmbedding.
                                     if length storedEmbedding = 1536
                                     then extractReal384Embedding storedEmbedding
                                     else if length storedEmbedding = 384 then Inr storedEmbedding
                                     else Inl (UnexpectedEmbeddingSize (length storedEmbedding)))
                           else generateEmbedding db (keywords targetFaculty))
                          (\<lambda>targetEmbedding.
                             rank_dense targetEmbedding facultyWithEmbeddings maxR minSim))))"

definition calculateAdvancedSimilarity ::
    "env \<Rightarrow> string \<Rightarrow> options \<Rightarrow> similarity_result list promise" where
  "calculateAdvancedSimilarity db targetFacultyId opts =
     (let maxR = (case maxResults opts of None \<Rightarrow> 10 | Some n \<Rightarrow> n);
          minSim = (case minSimilarity opts of None \<Rightarrow> 1 / 10 | Some m \<Rightarrow> m);
          useAdv = (case useAdvanced opts of None \<Rightarrow> True | Some u \<Rightarrow> u);
          lexicalOptions = \<lparr>maxResults = Some maxR, minSimilarity = Some minSim,
                            filterSchool = filterSchool opts,
                            filterDepartment = filterDepartment opts, useAdvanced = None\<rparr>;
          isEmbeddingAvailable = (if useAdv then testEmbeddingEnvironment db else False)
      in if \<not> isEmbeddingAvailable then calculateSimilarFaculty db targetFacultyId lexicalOptions
         else (case calculate_dense db targetFacultyId maxR minSim
                      (filterSchool opts) (filterDepartment opts) of
                 Inl _ \<Rightarrow> calculateSimilarFaculty db targetFacultyId lexicalOptions
               | Inr results \<Rightarrow> Inr results))"

text \<open>The body of the \<open>try\<close> block of \<open>searchAdvancedSimilarity\<close>.\<close>

definition search_dense ::
    "env \<Rightarrow> string \<Rightarrow> int \<Rightarrow> real \<Rightarrow> string option \<Rightarrow> string option
       \<Rightarrow> similarity_result list promise" where
  "search_dense db query maxR minSim fSchool fDepartment =
     (case execute db (with_filters fSchool fDepartment (select dense_fields from_faculty)) of
        None \<Rightarrow> Inl DatabaseQueryFailed
      | Some allFaculty \<Rightarrow>
          (let facultyWithEmbeddings = filter has_embedding allFaculty
           in if facultyWithEmbeddings = [] then Inl NoEmbeddingsAvailable
              else await (generateEmbedding db query)
                     (\<lambda>queryEmbedding.
                        rank_dense queryEmbedding facultyWithEmbeddings maxR minSim)))"

definition searchAdvancedSimilarity ::
    "env \<Rightarrow> string \<Rightarrow> options \<Rightarrow> similarity_result list promise" where
  "searchAdvancedSimilarity db query opts =
     (let maxR = (case maxResults opts of None \<Rightarrow> 20 | Some n \<Rightarrow> n);
          minSim = (case minSimilarity opts of None \<Rightarrow> 1 / 10 | Some m \<Rightarrow> m);
          useAdv = (case useAdvanced opts of None \<Rightarrow> True | Some u \<Rightarrow> u);
          lexicalOptions = \<lparr>maxResults = Some maxR, minSimilarity = Some minSim,
                            filterSchool = filterSchool opts,
                            filterDepartment = filterDepartment opts, useAdvanced = None\<rparr>;
          isEmbeddingAvailable = (if useAdv then testEmbeddingEnvironment db else False)
      in if \<not> isEmbeddingAvailable then searchSimilarFaculty db query lexicalOptions
         else (case search_dense db query maxR minSim
                      (filterSchool opts) (filterDepartment opts) of
                 Inl _ \<Rightarrow> searchSimilarFaculty db query lexicalOptions
               | Inr results \<Rightarrow> Inr results))"

section \<open>The network route: nodes and the pairwise similarity graph\<close>

record graph_node = faculty_info +
  clusterId :: int
  color :: "string option"
  node_keywords :: string

definition colors :: "string list" where
  "colors = [''#ef4444'', ''#3b82f6'', ''#10b981'', ''#f59e0b'', ''#8b5cf6'', ''#ec4899'',
             ''#6b7280'', ''#14b8a6'']"

definition departments_of :: "faculty_row list \<Rightarrow> string list" where
  "departments_of faculty = new_Set (map department faculty)"

definition build_nodes :: "faculty_row list \<Rightarrow> graph_node list" where
  "build_nodes faculty =
     (let departments = departments_of faculty
      in map (\<lambda>f.
                (let cid = indexOf departments (department f);
                     clusterColor = at_index colors (js_rem cid (int (length colors)))
                 in \<lparr>faculty_id = faculty_id f, name = name f, title = title f,
                     school = school f, department = department f,
                     clusterId = cid, color = clusterColor, node_keywords = keywords f\<rparr>))
             faculty)"

text \<open>
  \<open>calculateCosineSimilarity\<close> has no length check. Reading \<open>b[i]\<close> past the end of
  \<open>b\<close> gives undefined and turns the dot product into NaN, which is \<open>None\<close> here.
\<close>

definition calculateCosineSimilarity :: "vec \<Rightarrow> vec \<Rightarrow> real option" where
  "calculateCosineSimilarity a b =
     (let dotProduct =
            (if length b < length a then None
             else Some (foldl (\<lambda>sum (val, i). sum + val * b ! i) 0 (zip a [0..<length a])));
          magnitudeA = sqrt (foldl (\<lambda>sum val. sum + val * val) 0 a);
          magnitudeB = sqrt (foldl (\<lambda>sum val. sum + val * val) 0 b)
      in if magnitudeA = 0 \<or> magnitudeB = 0 then Some 0
         else map_option (\<lambda>d. d / (magnitudeA * magnitudeB)) dotProduct)"

record connection =
  target :: string
  strength :: real
  weight :: real

record link = connection +
  source :: string

definition route_embedding :: "faculty_row \<Rightarrow> vec promise" where
  "route_embedding f =
     await (json_parse (embedding f))
       (\<lambda>storedEmbedding.
          if length storedEmbedding = 1536 then extractReal384Embedding_local storedEmbedding
          else if length storedEmbedding = 384 then Inr storedEmbedding
          else Inl (UnexpectedEmbeddingSize (length storedEmbedding)))"

text \<open>
  The inner loop for node \<open>i\<close>: \<open>later\<close> holds the records \<open>faculty[j]\<close> with
  \<open>j > i\<close> and their vectors. A comparison with NaN is false.
\<close>

definition node_connections :: "vec \<Rightarrow> (faculty_row \<times> vec) list \<Rightarrow> real \<Rightarrow> connection list" where
  "node_connections ei later threshold =
     concat (map (\<lambda>(fj, ej).
                    case calculateCosineSimilarity ei ej of
                      None \<Rightarrow> []
                    | Some s \<Rightarrow>
                        if s \<ge> threshold
                        then [\<lparr>target = faculty_id fj, strength = s, weight = min (s * 5) 3\<rparr>]
                        else [])
                 later)"

fun pairwise_links :: "(faculty_row \<times> vec) list \<Rightarrow> real \<Rightarrow> int \<Rightarrow> link list" where
  "pairwise_links [] threshold maxConnections = []"
| "pairwise_links ((fi, ei) # later) threshold maxConnections =
     map (\<lambda>conn. \<lparr>target = target conn, strength = strength conn, weight = weight conn,
                    source = faculty_id fi\<rparr>)
       (slice0 maxConnections
          (array_sort (\<lambda>a b. strength b - strength a) (node_connections ei later threshold)))
     @ pairwise_links later threshold maxConnections"

text \<open>
  The part of \<open>GET\<close> that computes the similarity connections from the fetched array
  \<open>faculty\<close>: the extraction of the embeddings, which throws on a stored vector of
  another size than 384 or 1536, and the pairwise loop.
\<close>

definition calculate_links :: "faculty_row list \<Rightarrow> real \<Rightarrow> int \<Rightarrow> link list promise" where
  "calculate_links faculty threshold maxConnections =
     await (map_throwing route_embedding faculty)
       (\<lambda>embeddings. Inr (pairwise_links (zip faculty embeddings) threshold maxConnections))"

text \<open>
  The response of the route: the graph (its nodes and links; the cluster names and the
  metadata are left out) or an error with status 500.
\<close>

datatype network_response = Graph "graph_node list" "link list" | Status500 string

text \<open>The query that \<open>GET\<close> builds: the records that carry an embedding, filtered.\<close>

definition network_query :: "string option \<Rightarrow> string option \<Rightarrow> query_builder" where
  "network_query fSchool fDepartment =
     with_filters fSchool fDepartment
       (not_is_null ''embedding'' (select dense_fields from_faculty))"

text \<open>
  \<open>GET\<close> of the network route. The builder is awaited without \<open>execute()\<close>, see
  \<open>await_builder\<close>, and the route tests \<open>error || !faculty\<close> on what it gets. An
  exception of the body is caught and answered with status 500.
\<close>

definition GET_network ::
    "env \<Rightarrow> real \<Rightarrow> int \<Rightarrow> string option \<Rightarrow> string option \<Rightarrow> network_response" where
  "GET_network db threshold maxConnections fSchool fDepartment =
     (let query = network_query fSchool fDepartment
      in case await_builder db query of
           None \<Rightarrow> Status500 ''Failed to fetch faculty data''
         | Some faculty \<Rightarrow>
             (let nodes = build_nodes faculty
              in case calculate_links faculty threshold maxConnections of
                   Inl e \<Rightarrow> Status500 ''Internal server error''
                 | Inr links \<Rightarrow> Graph nodes links))"

section \<open>Specification-level notions\<close>

text \<open>The dot product and the Euclidean norm as the specification words them.\<close>

definition dot :: "vec \<Rightarrow> vec \<Rightarrow> real" where
  "dot a b = sum_list (map (\<lambda>(x, y). x * y) (zip a b))"

definition euclidean_norm :: "vec \<Rightarrow> real" where
  "euclidean_norm a = sqrt (sum_list (map (\<lambda>x. x * x) a))"

definition length_provider :: env where
  "length_provider = \<lparr>faculty_table = [], query_rejects = (\<lambda>q. False),
                        pipeline = (\<lambda>t. Inr (replicate 384 (real (length t))))\<rparr>"

definition ranked_by ::
    "('r \<Rightarrow> real) \<Rightarrow> ('r \<Rightarrow> 'i) \<Rightarrow> real \<Rightarrow> int \<Rightarrow> 'i list \<Rightarrow> 'r list \<Rightarrow> bool" where
  "ranked_by score ident minSim maxR candidates rs \<longleftrightarrow>
     (\<forall>r \<in> set rs. minSim \<le> score r)
     \<and> sorted_wrt (\<lambda>a b. score b \<le> score a) rs
     \<and> (0 \<le> maxR \<longrightarrow> int (length rs) \<le> maxR)
     \<and> (\<forall>s \<in> set (map score rs).
           subseq (map ident (filter (\<lambda>r. score r = s) rs)) candidates)"

definition threshold_of :: "options \<Rightarrow> real" where
  "threshold_of opts = (case minSimilarity opts of None \<Rightarrow> 1 / 10 | Some m \<Rightarrow> m)"

definition limit_of :: "int \<Rightarrow> options \<Rightarrow> int" where
  "limit_of d opts = (case maxResults opts of None \<Rightarrow> d | Some n \<Rightarrow> n)"

definition demo_row :: "string \<Rightarrow> string \<Rightarrow> stored_embedding \<Rightarrow> faculty_row" where
  "demo_row i kw emb = \<lparr>faculty_id = i, name = i, title = ''Professor'', school = ''Engineering'',
                         department = ''Robotics'', keywords = kw, embedding = emb\<rparr>"

definition no_options :: options where
  "no_options = \<lparr>maxResults = None, minSimilarity = None, filterSchool = None,
                  filterDepartment = None, useAdvanced = None\<rparr>"

definition lexical_db :: env where
  "lexical_db = \<lparr>faculty_table = [demo_row ''a'' ''robotics'' NoEmbedding,
                                  demo_row ''b'' ''robotics'' NoEmbedding,
                                  demo_row ''c'' ''genetics'' NoEmbedding,
                                  demo_row ''d'' ''robotics'' NoEmbedding],
                  query_rejects = (\<lambda>q. False),
                  pipeline = (\<lambda>t. Inl ProviderFailure)\<rparr>"

definition endpoints :: "link \<Rightarrow> string set" where
  "endpoints l = {source l, target l}"

definition node_ids :: "(faculty_row \<times> vec) list \<Rightarrow> string list" where
  "node_ids nodes = map (\<lambda>n. faculty_id (fst n)) nodes"

definition out_links :: "connection list \<Rightarrow> faculty_row \<Rightarrow> link list" where
  "out_links conns fi =
     map (\<lambda>conn. \<lparr>target = target conn, strength = strength conn, weight = weight conn,
                    source = faculty_id fi\<rparr>) conns"

definition row_similarity :: "faculty_row \<Rightarrow> faculty_row \<Rightarrow> real option" where
  "row_similarity f g =
     (case (route_embedding f, route_embedding g) of
        (Inr a, Inr b) \<Rightarrow> calculateCosineSimilarity a b
      | _ \<Rightarrow> None)"

text \<open>
  The degree cap as the specification words it: the kept pairs of a node are its pairs
  with every other node whose similarity reaches the threshold, its top list holds the
  first \<open>maxConnections\<close> partners of their descending sort, and an edge joins two nodes
  when one of them has the other in its top list.
\<close>

definition spec_kept_pairs ::
    "(faculty_row \<times> vec) list \<Rightarrow> real \<Rightarrow> faculty_row \<times> vec \<Rightarrow> connection list" where
  "spec_kept_pairs nodes threshold n =
     node_connections (snd n)
       (filter (\<lambda>m. faculty_id (fst m) \<noteq> faculty_id (fst n)) nodes) threshold"

definition spec_top ::
    "(faculty_row \<times> vec) list \<Rightarrow> real \<Rightarrow> int \<Rightarrow> faculty_row \<times> vec \<Rightarrow> string list" where
  "spec_top nodes threshold k n =
     map target (slice0 k (array_sort (\<lambda>a b. strength b - strength a)
                             (spec_kept_pairs nodes threshold n)))"

definition spec_edge ::
    "(faculty_row \<times> vec) list \<Rightarrow> real \<Rightarrow> int \<Rightarrow> faculty_row \<times> vec \<Rightarrow> faculty_row \<times> vec \<Rightarrow> bool" where
  "spec_edge nodes threshold k u v \<longleftrightarrow>
     faculty_id (fst v) \<in> set (spec_top nodes threshold k u)
     \<or> faculty_id (fst u) \<in> set (spec_top nodes threshold k v)"

text \<open>
  The degree cap as the loop applies it, worded over the positions of the input: the
  kept pairs of record \<open>i\<close> are its pairs with the later records \<open>j > i\<close>, in input
  order, whose similarity reaches the threshold; its top list holds the first
  \<open>maxConnections\<close> of them after a stable sort by descending similarity
  (\<open>sort_key\<close> is the stable sort of the library); the edge list is the concatenation
  of the top lists in input order.
\<close>

definition later_pairs :: "faculty_row list \<Rightarrow> real \<Rightarrow> nat \<Rightarrow> connection list" where
  "later_pairs faculty threshold i =
     concat (map (\<lambda>j. case row_similarity (faculty ! i) (faculty ! j) of
                         None \<Rightarrow> []
                       | Some s \<Rightarrow>
                           if s \<ge> threshold
                           then [\<lparr>target = faculty_id (faculty ! j), strength = s,
                                  weight = min (s * 5) 3\<rparr>]
                           else [])
                 [Suc i..<length faculty])"

definition top_later :: "faculty_row list \<Rightarrow> real \<Rightarrow> int \<Rightarrow> nat \<Rightarrow> connection list" where
  "top_later faculty threshold maxConnections i =
     take (nat maxConnections)
       (sort_key (\<lambda>c. - strength c) (later_pairs faculty threshold i))"

definition capped_links :: "faculty_row list \<Rightarrow> real \<Rightarrow> int \<Rightarrow> link list" where
  "capped_links faculty threshold maxConnections =
     concat (map (\<lambda>i. out_links (top_later faculty threshold maxConnections i) (faculty ! i))
                 [0..<length faculty])"

definition plane_vector :: "real \<Rightarrow> real \<Rightarrow> vec" where
  "plane_vector x y = x # y # replicate 382 0"

definition physicist :: faculty_row where
  "physicist = \<lparr>faculty_id = ''f1'', name = ''Ada'', title = ''Professor'', school = ''Science'',
                 department = ''Physics'', keywords = ''optics'',
                 embedding = Embedding (plane_vector 1 0)\<rparr>"

definition biologist :: faculty_row where
  "biologist = \<lparr>faculty_id = ''f2'', name = ''Bo'', title = ''Lecturer'', school = ''Science'',
                 department = ''Biology'', keywords = ''genetics'',
                 embedding = Embedding (plane_vector 0 1)\<rparr>"

definition graph_faculty :: "faculty_row list" where
  "graph_faculty =
     [demo_row ''A'' ''robotics'' (Embedding (plane_vector 1 0)),
      demo_row ''B'' ''robotics'' (Embedding (plane_vector (4 / 5) (- (3 / 5)))),
      demo_row ''C'' ''robotics'' (Embedding (plane_vector (3 / 5) (4 / 5)))]"

definition graph_nodes :: "(faculty_row \<times> vec) list" where
  "graph_nodes = zip graph_faculty
     [plane_vector 1 0, plane_vector (4 / 5) (- (3 / 5)), plane_vector (3 / 5) (4 / 5)]"

definition tie_faculty :: "faculty_row list" where
  "tie_faculty =
     [demo_row ''A'' ''robotics'' (Embedding (plane_vector 1 0)),
      demo_row ''B'' ''robotics'' (Embedding (plane_vector (3 / 5) (4 / 5))),
      demo_row ''C'' ''robotics'' (Embedding (plane_vector (3 / 5) (- (4 / 5))))]"

text \<open>A database that holds the given records and answers every statement.\<close>

definition table_db :: "faculty_row list \<Rightarrow> env" where
  "table_db rows = \<lparr>faculty_table = rows, query_rejects = (\<lambda>q. False),
                     pipeline = (\<lambda>t. Inl ProviderFailure)\<rparr>"

definition lexical_query :: "options \<Rightarrow> query_builder" where
  "lexical_query opts =
     with_filters (filterSchool opts) (filterDepartment opts) (select lexical_fields from_faculty)"

definition dense_query :: "options \<Rightarrow> query_builder" where
  "dense_query opts =
     with_filters (filterSchool opts) (filterDepartment opts) (select dense_fields from_faculty)"

definition target_query :: "string \<Rightarrow> query_builder" where
  "target_query tid = eq ''faculty_id'' tid (select ''*'' from_faculty)"

definition filtered_set :: "env \<Rightarrow> options \<Rightarrow> faculty_row list" where
  "filtered_set db opts =
     filter (row_matches (whereConditions (lexical_query opts))) (faculty_table db)"

definition dense_db :: env where
  "dense_db = \<lparr>faculty_table = [demo_row ''a'' ''robotics'' (Embedding (plane_vector 1 0)),
                                demo_row ''c'' ''genetics'' (Embedding (plane_vector 0 1))],
                query_rejects = (\<lambda>q. False),
                pipeline = (\<lambda>t. Inr (plane_vector 1 0))\<rparr>"

definition offline_db :: env where
  "offline_db = dense_db\<lparr>pipeline := (\<lambda>t. Inl ProviderFailure)\<rparr>"

text \<open>
  A database whose table has no \<open>embedding\<close> column yet: it rejects the statement that
  selects the dense fields and answers the others; the provider works.
\<close>

definition no_embedding_column_db :: env where
  "no_embedding_column_db =
     lexical_db\<lparr>query_rejects := (\<lambda>q. selectFields q = dense_fields),
                 pipeline := (\<lambda>t. Inr (plane_vector 1 0))\<rparr>"

text \<open>A database that rejects the lookup of a single record and answers the others.\<close>

definition lookup_outage_db :: env where
  "lookup_outage_db =
     lexical_db\<lparr>query_rejects := (\<lambda>q. selectFields q = ''*''),
                 pipeline := (\<lambda>t. Inr (plane_vector 1 0))\<rparr>"

datatype provenance = Dense | Lexical

text \<open>
  The provenance of a search as the state machine of the specification assigns it: dense
  when the dense path is preferred, the probe succeeds and the dense ranking returns,
  lexical otherwise. The code computes no such tag; this definition reads it off the
  control flow of \<open>searchAdvancedSimilarity\<close>.
\<close>

definition search_provenance :: "env \<Rightarrow> string \<Rightarrow> options \<Rightarrow> provenance" where
  "search_provenance db q opts =
     (if (case useAdvanced opts of None \<Rightarrow> True | Some u \<Rightarrow> u)
         \<and> testEmbeddingEnvironment db
         \<and> \<not> isl (search_dense db q (limit_of 20 opts) (threshold_of opts)
                    (filterSchool opts) (filterDepartment opts))
      then Dense else Lexical)"

definition usable_embedding :: "faculty_row \<Rightarrow> bool" where
  "usable_embedding f =
     (case embedding f of Embedding v \<Rightarrow> length v = 384 \<or> length v = 1536 | _ \<Rightarrow> False)"

section \<open>The cosine primitives\<close>

lemma cosine_loop_sums:
  "length a = length b \<Longrightarrow>
   cosine_loop a b (d, na, nb) =
     (d + dot a b, na + sum_list (map (\<lambda>x. x * x) a), nb + sum_list (map (\<lambda>x. x * x) b))"
proof (induction a b arbitrary: d na nb rule: list_induct2)
  case Nil
  show ?case by (simp add: dot_def)
next
  case (Cons x xs y ys)
  from Cons.IH [of "d + x * y" "na + x * x" "nb + y * y"] show ?case
    by (simp add: dot_def algebra_simps)
qed

lemma foldl_add_sum_list:
  "foldl (\<lambda>s v. s + f v) (s0::real) xs = s0 + sum_list (map f xs)"
  by (induction xs arbitrary: s0) (simp_all add: algebra_simps)

lemma sum_squares_nonneg: "0 \<le> sum_list (map (\<lambda>x. x * x) (a::real list))"
  by (induction a) simp_all

lemma cosineSimilarity_equal_length:
  assumes "length a = length b"
  shows "cosineSimilarity a b =
           Inr (if euclidean_norm a = 0 \<or> euclidean_norm b = 0 then 0
                else dot a b / (euclidean_norm a * euclidean_norm b))"
  using assms sum_squares_nonneg [of a] sum_squares_nonneg [of b]
  by (simp add: cosineSimilarity_def cosine_loop_sums euclidean_norm_def)

lemma cosineSimilarity_tfidf_equal_length:
  assumes "length a = length b"
  shows "cosineSimilarity_tfidf a b =
           (if euclidean_norm a = 0 \<or> euclidean_norm b = 0 then 0
            else dot a b / (euclidean_norm a * euclidean_norm b))"
  using assms by (simp add: cosineSimilarity_tfidf_def cosine_loop_sums euclidean_norm_def)

lemma reduce_dot:
  "k + length a \<le> length b \<Longrightarrow>
   foldl (\<lambda>sum (val, i). sum + val * b ! i) s0 (zip a [k..<k + length a])
     = s0 + dot a (drop k b)"
proof (induction a arbitrary: k s0)
  case Nil
  show ?case by (simp add: dot_def)
next
  case (Cons x xs)
  have k: "k < length b" using Cons.prems by simp
  have up: "[k..<k + length (x # xs)] = k # [Suc k..<Suc k + length xs]"
    by (subst upt_rec) simp
  have dr: "drop k b = b ! k # drop (Suc k) b"
    using k by (simp add: Cons_nth_drop_Suc)
  have "Suc k + length xs \<le> length b" using Cons.prems by simp
  from Cons.IH [OF this, of "s0 + x * b ! k"] show ?case
    unfolding up dr by (simp add: dot_def algebra_simps)
qed

lemma calculateCosineSimilarity_equal_length:
  assumes "length a = length b"
  shows "calculateCosineSimilarity a b =
           Some (if euclidean_norm a = 0 \<or> euclidean_norm b = 0 then 0
                 else dot a b / (euclidean_norm a * euclidean_norm b))"
  using assms reduce_dot [of 0 a b 0]
  by (simp add: calculateCosineSimilarity_def foldl_add_sum_list euclidean_norm_def Let_def)

text \<open>
  C4 (as amended): the cosine of the dense path, \<open>cosineSimilarity\<close> of
  transformers-embedding, fails with a dimension mismatch when the lengths differ, while
  the cosine of the TF-IDF path returns 0 there. On vectors of equal length both of them,
  and \<open>calculateCosineSimilarity\<close> of the network route, return 0 when either vector
  has zero norm and otherwise the dot product divided by the product of the two
  Euclidean norms.
\<close>

theorem cosineSimilarity_cases:
  "(length a \<noteq> length b \<longrightarrow>
      cosineSimilarity a b = Inl (DimensionMismatch (length a) (length b))
      \<and> cosineSimilarity_tfidf a b = 0)
   \<and> (length a = length b \<and> (euclidean_norm a = 0 \<or> euclidean_norm b = 0) \<longrightarrow>
      cosineSimilarity a b = Inr 0
      \<and> cosineSimilarity_tfidf a b = 0
      \<and> calculateCosineSimilarity a b = Some 0)
   \<and> (length a = length b \<and> euclidean_norm a \<noteq> 0 \<and> euclidean_norm b \<noteq> 0 \<longrightarrow>
      cosineSimilarity a b = Inr (dot a b / (euclidean_norm a * euclidean_norm b))
      \<and> cosineSimilarity_tfidf a b = dot a b / (euclidean_norm a * euclidean_norm b)
      \<and> calculateCosineSimilarity a b = Some (dot a b / (euclidean_norm a * euclidean_norm b)))"
proof (intro conjI impI)
  assume "length a \<noteq> length b"
  then show "cosineSimilarity a b = Inl (DimensionMismatch (length a) (length b))"
    by (simp add: cosineSimilarity_def)
next
  assume "length a \<noteq> length b"
  then show "cosineSimilarity_tfidf a b = 0"
    by (simp add: cosineSimilarity_tfidf_def)
qed (simp_all add: cosineSimilarity_equal_length cosineSimilarity_tfidf_equal_length
      calculateCosineSimilarity_equal_length)

theorem cosineSimilarity_cases_witness:
  "length [1::real] \<noteq> length [1, 2::real]
   \<and> cosineSimilarity [1] [1, 2] = Inl (DimensionMismatch 1 2)
   \<and> length [0, 0::real] = length [1, 2::real] \<and> euclidean_norm [0, 0] = 0
   \<and> cosineSimilarity [0, 0] [1, 2] = Inr 0
   \<and> cosineSimilarity_tfidf [0, 0] [1, 2] = 0
   \<and> calculateCosineSimilarity [0, 0] [1, 2] = Some 0
   \<and> length [0, 1::real] = length [0, 1::real] \<and> euclidean_norm [0, 1] \<noteq> 0
   \<and> cosineSimilarity [0, 1] [0, 1] = Inr 1
   \<and> cosineSimilarity_tfidf [0, 1] [0, 1] = 1
   \<and> calculateCosineSimilarity [0, 1] [0, 1] = Some 1"
  using cosineSimilarity_cases [of "[1]" "[1, 2]"]
        cosineSimilarity_cases [of "[0, 0]" "[1, 2]"]
        cosineSimilarity_cases [of "[0, 1]" "[0, 1]"]
  by (simp add: euclidean_norm_def dot_def)

text \<open>
  C4 as stated fails on the cosine of the TF-IDF path: on vectors of different lengths it
  returns the number 0 instead of failing.
\<close>

theorem cosineSimilarity_tfidf_mismatch_counterexample:
  "length [1::real] \<noteq> length [1, 2::real] \<and> cosineSimilarity_tfidf [1] [1, 2] = 0"
  by (simp add: cosineSimilarity_tfidf_def)

section \<open>The embedding adapter\<close>

text \<open>
  C5: padding a vector of native length 384 to the storage length 1536 and extracting the
  first 384 entries gives the vector back, for the pair of transformers-embedding, for the
  checked wrappers of the orchestrator and for the local copies.
\<close>

theorem pad_extract_roundtrip:
  assumes "length v = 384"
  shows "await (padEmbeddingTo1536 v) (\<lambda>p. Inr (extractEmbeddingFrom1536 p)) = Inr v
       \<and> await (padEmbeddingTo1536Compat v) extractReal384Embedding = Inr v
       \<and> await (padEmbeddingTo1536_local v) extractReal384Embedding_local = Inr v"
  using assms
  by (simp add: await_def padEmbeddingTo1536_def extractEmbeddingFrom1536_def
      padEmbeddingTo1536Compat_def extractReal384Embedding_def
      padEmbeddingTo1536_local_def extractReal384Embedding_local_def)

theorem pad_extract_roundtrip_witness:
  "length (replicate 384 (1::real)) = 384
   \<and> await (padEmbeddingTo1536 (replicate 384 1)) (\<lambda>p. Inr (extractEmbeddingFrom1536 p))
       = Inr (replicate 384 1)
   \<and> await (padEmbeddingTo1536Compat (replicate 384 1)) extractReal384Embedding
       = Inr (replicate 384 1)
   \<and> await (padEmbeddingTo1536_local (replicate 384 1)) extractReal384Embedding_local
       = Inr (replicate 384 1)"
  using pad_extract_roundtrip [of "replicate 384 1"] by simp

section \<open>Graph nodes: department clusters and colours\<close>

lemma new_Set_snoc: "new_Set (xs @ [x]) = set_add x (new_Set xs)"
  by (simp add: new_Set_def)

lemma set_new_Set: "set (new_Set xs) = set xs"
  by (induction xs rule: rev_induct) (auto simp: new_Set_snoc set_add_def, simp add: new_Set_def)

lemma distinct_new_Set: "distinct (new_Set xs)"
  by (induction xs rule: rev_induct) (simp_all add: new_Set_snoc set_add_def, simp add: new_Set_def)

lemma indexOf_range: "indexOf xs d < int (length xs) \<and> - 1 \<le> indexOf xs d"
  by (induction xs) (auto simp: Let_def)

lemma indexOf_mem: "d \<in> set xs \<longleftrightarrow> 0 \<le> indexOf xs d"
  by (induction xs) (auto simp: Let_def)

lemma nth_indexOf: "d \<in> set xs \<Longrightarrow> xs ! nat (indexOf xs d) = d"
proof (induction xs)
  case Nil
  then show ?case by simp
next
  case (Cons x xs)
  show ?case
  proof (cases "x = d")
    case True
    then show ?thesis by simp
  next
    case False
    with Cons.prems have m: "d \<in> set xs" by simp
    then have "0 \<le> indexOf xs d" by (simp add: indexOf_mem)
    with False Cons.IH [OF m] show ?thesis by (simp add: Let_def nat_add_distrib)
  qed
qed

lemma indexOf_append_mem: "d \<in> set xs \<Longrightarrow> indexOf (xs @ ys) d = indexOf xs d"
  by (induction xs) (auto simp: Let_def)

lemma indexOf_append_new: "d \<notin> set xs \<Longrightarrow> indexOf (xs @ [d]) d = int (length xs)"
  by (induction xs) (auto simp: Let_def)

lemma indexOf_new_Set:
  "d \<in> set xs \<Longrightarrow> indexOf (new_Set xs) d = int (card (set (takeWhile (\<lambda>x. x \<noteq> d) xs)))"
proof (induction xs rule: rev_induct)
  case Nil
  then show ?case by simp
next
  case (snoc x xs)
  show ?case
  proof (cases "d \<in> set xs")
    case True
    then have tw: "takeWhile (\<lambda>x. x \<noteq> d) (xs @ [x]) = takeWhile (\<lambda>x. x \<noteq> d) xs"
      by (simp add: takeWhile_append1)
    from True have "d \<in> set (new_Set xs)" by (simp add: set_new_Set)
    then have "indexOf (set_add x (new_Set xs)) d = indexOf (new_Set xs) d"
      by (simp add: set_add_def indexOf_append_mem)
    with snoc.IH [OF True] tw show ?thesis by (simp add: new_Set_snoc)
  next
    case False
    with snoc.prems have dx: "x = d" by simp
    from False have "\<And>y. y \<in> set xs \<Longrightarrow> y \<noteq> d" by auto
    then have tw: "takeWhile (\<lambda>x. x \<noteq> d) (xs @ [x]) = xs"
      using dx by (simp add: takeWhile_append2)
    from False have nm: "d \<notin> set (new_Set xs)" by (simp add: set_new_Set)
    have "card (set xs) = length (new_Set xs)"
      using distinct_card [OF distinct_new_Set [of xs]] by (simp add: set_new_Set)
    with nm dx tw show ?thesis
      by (simp add: new_Set_snoc set_add_def indexOf_append_new)
  qed
qed

text \<open>
  C9 (as amended): the distinct departments are listed in the order of their first
  occurrence in the filtered set (they are not sorted). The cluster id of a node is the
  index of its department in that list, which is the number of distinct departments that
  occur before the first record of the node's department; the colour of the node is the
  palette entry at the cluster id modulo the palette size 8.
\<close>

theorem cluster_id_first_occurrence:
  assumes "i < length faculty"
  shows "distinct (departments_of faculty)
       \<and> set (departments_of faculty) = set (map department faculty)
       \<and> clusterId (build_nodes faculty ! i)
           = int (card (set (takeWhile (\<lambda>d. d \<noteq> department (faculty ! i))
                                (map department faculty))))
       \<and> at_index (departments_of faculty) (clusterId (build_nodes faculty ! i))
           = Some (department (faculty ! i))
       \<and> color (build_nodes faculty ! i)
           = at_index colors (clusterId (build_nodes faculty ! i) mod 8)"
proof -
  let ?d = "department (faculty ! i)"
  have mem: "?d \<in> set (map department faculty)" using assms by simp
  have cid: "clusterId (build_nodes faculty ! i) = indexOf (departments_of faculty) ?d"
    using assms by (simp add: build_nodes_def Let_def)
  have memS: "?d \<in> set (departments_of faculty)"
    using mem by (simp add: departments_of_def set_new_Set)
  have nonneg: "0 \<le> indexOf (departments_of faculty) ?d"
    using memS by (simp add: indexOf_mem)
  have col: "color (build_nodes faculty ! i)
              = at_index colors (js_rem (clusterId (build_nodes faculty ! i)) (int (length colors)))"
    using assms by (simp add: build_nodes_def Let_def)
  show ?thesis
    using cid nonneg col memS indexOf_range [of "departments_of faculty" ?d]
      nth_indexOf [OF memS] indexOf_new_Set [OF mem]
    by (simp add: departments_of_def set_new_Set distinct_new_Set at_index_def js_rem_def colors_def)
qed

section \<open>Batch embeddings\<close>

lemma cleanText_empty: "cleanText [] = []"
  by (simp add: cleanText_def toLowerCase_def strip_punctuation_def trim_def)

lemma cleanText_robotics: "cleanText ''robotics'' = ''robotics''"
  by (simp add: cleanText_def toLowerCase_def toLowerChar_def strip_punctuation_def trim_def
      is_space_def is_word_def)

text \<open>
  C10 fails on the code: for two texts of which the first cleans to the empty string, the
  batch function returns a single embedding, the one of the second text, although the
  function for a single text returns a zero vector for the first text.
\<close>

theorem generateEmbeddings_misaligned:
  "generateEmbeddings length_provider ['''', ''robotics''] = Inr [replicate 384 8]
   \<and> generateEmbedding length_provider '''' = Inr (replicate 384 0)
   \<and> generateEmbedding length_provider ''robotics'' = Inr (replicate 384 8)"
  by (simp add: generateEmbeddings_def generateEmbedding_def cleanText_empty cleanText_robotics
      length_provider_def)

section \<open>Ranking: filter, stable sort, cap\<close>

lemma set_insert_cmp: "set (insert_cmp cmp x ys) = insert x (set ys)"
  by (induction ys) auto

lemma set_array_sort: "set (array_sort cmp xs) = set xs"
  by (induction xs) (simp_all add: array_sort_def set_insert_cmp)

lemma length_insert_cmp: "length (insert_cmp cmp x ys) = Suc (length ys)"
  by (induction ys) auto

lemma length_array_sort: "length (array_sort cmp xs) = length xs"
  by (induction xs) (simp_all add: array_sort_def length_insert_cmp)

lemma distinct_map_insert_cmp:
  "distinct (map f (insert_cmp cmp x ys)) \<longleftrightarrow> f x \<notin> f ` set ys \<and> distinct (map f ys)"
  by (induction ys) (auto simp: set_insert_cmp)

lemma distinct_map_array_sort:
  "distinct (map f (array_sort cmp xs)) \<longleftrightarrow> distinct (map f xs)"
  by (induction xs)
    (simp_all add: array_sort_def distinct_map_insert_cmp set_array_sort [unfolded array_sort_def])

lemma sorted_insert_cmp:
  assumes desc: "\<And>x y. (cmp x y \<le> 0) = (key y \<le> key x)"
    and "sorted_wrt (\<lambda>a b. key b \<le> (key a :: real)) ys"
  shows "sorted_wrt (\<lambda>a b. key b \<le> key a) (insert_cmp cmp x ys)"
  using assms(2)
proof (induction ys)
  case Nil
  show ?case by simp
next
  case (Cons y ys)
  show ?case
  proof (cases "cmp x y \<le> 0")
    case True
    then have "key y \<le> key x" by (simp add: desc)
    with Cons.prems True show ?thesis by fastforce
  next
    case False
    then have "key x \<le> key y" using desc [of x y] by simp
    with Cons False show ?thesis by (auto simp: set_insert_cmp)
  qed
qed

lemma sorted_array_sort:
  assumes "\<And>x y. (cmp x y \<le> 0) = (key y \<le> (key x :: real))"
  shows "sorted_wrt (\<lambda>a b. key b \<le> key a) (array_sort cmp xs)"
proof (induction xs)
  case Nil
  show ?case by (simp add: array_sort_def)
next
  case (Cons x xs)
  from sorted_insert_cmp [of cmp key, OF assms Cons.IH] show ?case
    by (simp add: array_sort_def)
qed

lemma filter_insert_cmp:
  assumes desc: "\<And>x y. (cmp x y \<le> 0) = (key y \<le> (key x :: real))"
  shows "filter (\<lambda>r. key r = s) (insert_cmp cmp x ys)
           = (if key x = s then x # filter (\<lambda>r. key r = s) ys else filter (\<lambda>r. key r = s) ys)"
proof (induction ys)
  case Nil
  show ?case by simp
next
  case (Cons y ys)
  show ?case
  proof (cases "cmp x y \<le> 0")
    case True
    then show ?thesis by simp
  next
    case False
    then have "key x \<noteq> key y" using desc [of x y] by auto
    with False Cons.IH show ?thesis by auto
  qed
qed

lemma array_sort_stable:
  assumes "\<And>x y. (cmp x y \<le> 0) = (key y \<le> (key x :: real))"
  shows "filter (\<lambda>r. key r = s) (array_sort cmp xs) = filter (\<lambda>r. key r = s) xs"
proof (induction xs)
  case Nil
  show ?case by (simp add: array_sort_def)
next
  case (Cons x xs)
  have "filter (\<lambda>r. key r = s) (insert_cmp cmp x (array_sort cmp xs))
          = (if key x = s then x # filter (\<lambda>r. key r = s) (array_sort cmp xs)
             else filter (\<lambda>r. key r = s) (array_sort cmp xs))"
    by (rule filter_insert_cmp [of cmp key, OF assms])
  with Cons.IH show ?case by (simp add: array_sort_def)
qed

lemma slice0_take:
  "slice0 e xs = take (nat (if e < 0 then int (length xs) + e else e)) xs"
  by (auto simp: slice0_def Let_def max_def min_def)

lemma length_slice0: "0 \<le> e \<Longrightarrow> int (length (slice0 e xs)) \<le> e"
  by (simp add: slice0_take)

lemma set_slice0: "set (slice0 e xs) \<subseteq> set xs"
  by (simp add: slice0_take set_take_subset)

lemma prefix_slice0: "prefix (slice0 e xs) xs"
  by (simp add: slice0_take take_is_prefix)

lemma ranked_pipeline:
  assumes desc: "\<And>x y. (cmp x y \<le> 0) = (key y \<le> (key x :: real))"
  shows "ranked_by key ident m k (map ident xs)
           (slice0 k (array_sort cmp (filter (\<lambda>x. m \<le> key x) xs)))"
proof -
  let ?kept = "filter (\<lambda>x. m \<le> key x) xs"
  let ?sorted = "array_sort cmp ?kept"
  let ?rs = "slice0 k ?sorted"
  have a: "\<forall>r \<in> set ?rs. m \<le> key r"
    using set_slice0 [of k ?sorted] by (auto simp: set_array_sort)
  have "sorted_wrt (\<lambda>a b. key b \<le> key a) ?sorted"
    by (rule sorted_array_sort [of cmp key, OF desc])
  then have b: "sorted_wrt (\<lambda>a b. key b \<le> key a) ?rs"
    by (simp add: slice0_take sorted_wrt_take)
  have c: "0 \<le> k \<longrightarrow> int (length ?rs) \<le> k"
    by (simp add: length_slice0)
  have d: "subseq (map ident (filter (\<lambda>r. key r = s) ?rs)) (map ident xs)" for s
  proof -
    have "prefix (filter (\<lambda>r. key r = s) ?rs) (filter (\<lambda>r. key r = s) ?sorted)"
      by (rule filter_mono_prefix [OF prefix_slice0])
    also have "filter (\<lambda>r. key r = s) ?sorted = filter (\<lambda>r. key r = s) ?kept"
      by (rule array_sort_stable [of cmp key, OF desc])
    finally have "subseq (filter (\<lambda>r. key r = s) ?rs) (filter (\<lambda>r. key r = s) ?kept)"
      by (rule prefix_imp_subseq)
    also have "subseq (filter (\<lambda>r. key r = s) ?kept) ?kept" by (rule subseq_filter_left)
    also have "subseq ?kept xs" by (rule subseq_filter_left)
    finally show ?thesis by (rule subseq_map)
  qed
  from a b c d show ?thesis unfolding ranked_by_def by blast
qed

lemma ranked_by_subseq:
  "ranked_by key ident m k cands rs \<Longrightarrow> subseq cands cands' \<Longrightarrow> ranked_by key ident m k cands' rs"
  unfolding ranked_by_def using subseq_order.trans by blast

lemma ranked_by_Nil: "ranked_by key ident m k cands []"
  by (simp add: ranked_by_def)

lemma ranked_by_map:
  assumes "\<And>r. key' (g r) = key r" and "\<And>r. ident' (g r) = h (ident r)"
    and "ranked_by key ident m k cands rs"
  shows "ranked_by key' ident' m k (map h cands) (map g rs)"
proof -
  from assms(3) have a: "\<forall>r \<in> set rs. m \<le> key r"
    and b: "sorted_wrt (\<lambda>a b. key b \<le> key a) rs"
    and c: "0 \<le> k \<longrightarrow> int (length rs) \<le> k"
    and d: "\<And>s. s \<in> set (map key rs) \<Longrightarrow>
              subseq (map ident (filter (\<lambda>r. key r = s) rs)) cands"
    unfolding ranked_by_def by auto
  have d': "subseq (map ident' (filter (\<lambda>r. key' r = s) (map g rs))) (map h cands)"
    if "s \<in> set (map key' (map g rs))" for s
  proof -
    from that have "s \<in> set (map key rs)" by (auto simp: assms(1))
    from d [OF this]
    have "subseq (map h (map ident (filter (\<lambda>r. key r = s) rs))) (map h cands)"
      by (rule subseq_map)
    moreover have "map ident' (filter (\<lambda>r. key' r = s) (map g rs))
                     = map h (map ident (filter (\<lambda>r. key r = s) rs))"
      by (simp add: filter_map comp_def assms)
    ultimately show ?thesis by simp
  qed
  have a': "\<forall>r \<in> set (map g rs). m \<le> key' r" using a by (simp add: assms(1))
  have b': "sorted_wrt (\<lambda>a b. key' b \<le> key' a) (map g rs)"
    using b by (simp add: sorted_wrt_map assms(1))
  have c': "0 \<le> k \<longrightarrow> int (length (map g rs)) \<le> k" using c by simp
  show ?thesis unfolding ranked_by_def using a' b' c' d' by blast
qed

lemma map_throwing_all2:
  "map_throwing f xs = Inr ys \<Longrightarrow> list_all2 (\<lambda>x y. f x = Inr y) xs ys"
proof (induction xs arbitrary: ys)
  case Nil
  then show ?case by simp
next
  case (Cons x xs)
  then show ?case by (auto split: sum.splits)
qed

lemma scored_candidates:
  assumes "map_throwing (\<lambda>(item, emb). await (cosineSimilarity q emb) (\<lambda>s. Inr (item, s))) cands
             = Inr scored"
  shows "map fst scored = map fst cands"
proof -
  from map_throwing_all2 [OF assms]
  have "list_all2 (\<lambda>x y. fst y = fst x) cands scored"
    by (rule list_all2_mono) (auto simp: await_def split: sum.splits prod.splits)
  then show ?thesis
    by (induction cands scored rule: list_all2_induct) simp_all
qed

lemma ranked_findSimilar:
  assumes "findSimilar q cands topK minSim = Inr rs"
  shows "ranked_by snd fst minSim topK (map fst cands) rs"
proof -
  from assms obtain scored where
    sc: "map_throwing (\<lambda>(item, emb). await (cosineSimilarity q emb) (\<lambda>s. Inr (item, s))) cands
           = Inr scored"
    and rs: "rs = slice0 topK (array_sort (\<lambda>a b. snd b - snd a)
                                 (filter (\<lambda>item. minSim \<le> snd item) scored))"
    by (auto simp: findSimilar_def await_def split: sum.splits)
  have "ranked_by snd fst minSim topK (map fst scored) rs"
    unfolding rs by (rule ranked_pipeline) auto
  then show ?thesis by (simp add: scored_candidates [OF sc])
qed

lemma ranked_findSimilarFaculty:
  "ranked_by similarity faculty_id th k (map faculty_id fd) (findSimilarFaculty te embs fd k th)"
proof (cases "length fd < length embs")
  case True
  then show ?thesis by (simp add: findSimilarFaculty_def ranked_by_Nil)
next
  case False
  show ?thesis
  proof (cases "findSimilar te (zip fd embs) k th")
    case (Inl e)
    with False show ?thesis by (simp add: findSimilarFaculty_def ranked_by_Nil)
  next
    case (Inr scored)
    from ranked_findSimilar [OF Inr]
    have "ranked_by similarity faculty_id th k (map faculty_id (map fst (zip fd embs)))
            (map (\<lambda>(d, s). with_similarity d s) scored)"
      by (rule ranked_by_map [rotated 2]) (auto simp: with_similarity_def)
    moreover have "map fst (zip fd embs) = take (length embs) fd"
      by (simp add: map_fst_zip_take min_def)
    moreover have "subseq (map faculty_id (take (length embs) fd)) (map faculty_id fd)"
      by (intro subseq_map prefix_imp_subseq take_is_prefix)
    ultimately show ?thesis
      using Inr False by (auto simp: findSimilarFaculty_def intro: ranked_by_subseq)
  qed
qed

lemma ranked_lexical:
  "ranked_by similarity faculty_id m k (map faculty_id pool)
     (slice0 k (array_sort by_similarity_desc (lexical_similarities v idf terms m pool)))"
proof -
  let ?g = "\<lambda>faculty. with_similarity faculty
             (cosineSimilarity_tfidf v
                (calculateTFIDF (calculateTF (tokenize (keywords faculty))) idf terms))"
  have "ranked_by similarity faculty_id m k (map faculty_id (map ?g pool))
          (slice0 k (array_sort by_similarity_desc
             (filter (\<lambda>r. m \<le> similarity r) (map ?g pool))))"
    by (rule ranked_pipeline) (auto simp: by_similarity_desc_def)
  moreover have "map faculty_id (map ?g pool) = map faculty_id pool"
    by (simp add: with_similarity_def)
  ultimately show ?thesis unfolding lexical_similarities_def by (simp only:)
qed

lemma execute_subseq: "execute db q = Some rows \<Longrightarrow> subseq rows (faculty_table db)"
  by (auto simp: execute_def split: if_splits)

lemma ranked_calculateSimilarFaculty:
  assumes "calculateSimilarFaculty db tid opts = Inr rs"
  shows "ranked_by similarity faculty_id
           (case minSimilarity opts of None \<Rightarrow> 1 / 10 | Some m \<Rightarrow> m)
           (case maxResults opts of None \<Rightarrow> 10 | Some n \<Rightarrow> n)
           (map faculty_id (faculty_table db)) rs"
proof -
  let ?q = "with_filters (filterSchool opts) (filterDepartment opts)
              (select lexical_fields from_faculty)"
  show ?thesis
  proof (cases "execute db ?q")
    case None
    with assms show ?thesis by (auto simp: calculateSimilarFaculty_def ranked_by_Nil)
  next
    case (Some allFaculty)
    have sub: "subseq (map faculty_id (filter (\<lambda>f. faculty_id f \<noteq> tid) allFaculty))
                 (map faculty_id (faculty_table db))"
      using execute_subseq [OF Some]
      by (meson subseq_filter_left subseq_map subseq_order.trans)
    show ?thesis
      using assms Some
        ranked_by_subseq [OF ranked_lexical sub]
      by (auto simp: calculateSimilarFaculty_def Let_def ranked_by_Nil
          split: option.splits if_splits)
  qed
qed

lemma ranked_searchSimilarFaculty:
  assumes "searchSimilarFaculty db q opts = Inr rs"
  shows "ranked_by similarity faculty_id
           (case minSimilarity opts of None \<Rightarrow> 1 / 10 | Some m \<Rightarrow> m)
           (case maxResults opts of None \<Rightarrow> 20 | Some n \<Rightarrow> n)
           (map faculty_id (faculty_table db)) rs"
proof -
  let ?q = "with_filters (filterSchool opts) (filterDepartment opts)
              (select lexical_fields from_faculty)"
  show ?thesis
  proof (cases "execute db ?q")
    case None
    with assms show ?thesis by (auto simp: searchSimilarFaculty_def ranked_by_Nil)
  next
    case (Some allFaculty)
    have sub: "subseq (map faculty_id allFaculty) (map faculty_id (faculty_table db))"
      using execute_subseq [OF Some] by (rule subseq_map)
    show ?thesis
      using assms Some
        ranked_by_subseq [OF ranked_lexical sub]
      by (auto simp: searchSimilarFaculty_def Let_def ranked_by_Nil
          split: option.splits if_splits)
  qed
qed

lemma lexical_returns:
  "\<exists>rs. calculateSimilarFaculty db tid opts = Inr rs"
  "\<exists>rs. searchSimilarFaculty db q opts = Inr rs"
  by (auto simp: calculateSimilarFaculty_def searchSimilarFaculty_def Let_def split: option.splits)

lemma ranked_rank_dense:
  assumes "rank_dense q fwe k m = Inr rs"
  shows "ranked_by similarity faculty_id m k (map faculty_id fwe) rs"
proof -
  from assms obtain embs where
    "rs = findSimilarFaculty q embs (map info_of fwe) k m"
    by (auto simp: rank_dense_def await_def split: sum.splits)
  moreover have "map faculty_id (map info_of fwe) = map faculty_id fwe"
    by (simp add: info_of_def)
  ultimately show ?thesis
    using ranked_findSimilarFaculty [of m k "map info_of fwe" q embs] by (simp only:)
qed

lemma ranked_calculate_dense:
  assumes "calculate_dense db tid k m fs fd = Inr rs"
  shows "ranked_by similarity faculty_id m k (map faculty_id (faculty_table db)) rs"
proof -
  let ?q = "with_filters fs fd (select dense_fields from_faculty)"
  let ?t = "single db (eq ''faculty_id'' tid (select ''*'' from_faculty))"
  show ?thesis
  proof (cases "?t = None \<or> execute db ?q = None")
    case True
    with assms have "rs = []"
      by (auto simp: calculate_dense_def split: option.splits)
    then show ?thesis by (simp add: ranked_by_Nil)
  next
    case False
    then obtain target allFaculty where t: "?t = Some target" and e: "execute db ?q = Some allFaculty"
      by auto
    let ?fwe = "filter has_embedding (filter (\<lambda>f. faculty_id f \<noteq> tid) allFaculty)"
    from assms t e obtain te where "rank_dense te ?fwe k m = Inr rs"
      by (auto simp: calculate_dense_def Let_def await_def split: if_splits sum.splits)
    then have "ranked_by similarity faculty_id m k (map faculty_id ?fwe) rs"
      by (rule ranked_rank_dense)
    moreover have "subseq (map faculty_id ?fwe) (map faculty_id (faculty_table db))"
      using execute_subseq [OF e]
      by (meson subseq_filter_left subseq_map subseq_order.trans)
    ultimately show ?thesis by (rule ranked_by_subseq)
  qed
qed

lemma ranked_search_dense:
  assumes "search_dense db q k m fs fd = Inr rs"
  shows "ranked_by similarity faculty_id m k (map faculty_id (faculty_table db)) rs"
proof -
  let ?q = "with_filters fs fd (select dense_fields from_faculty)"
  from assms obtain allFaculty where e: "execute db ?q = Some allFaculty"
    by (auto simp: search_dense_def split: option.splits)
  let ?fwe = "filter has_embedding allFaculty"
  from assms e obtain qe where "rank_dense qe ?fwe k m = Inr rs"
    by (auto simp: search_dense_def Let_def await_def split: if_splits sum.splits)
  then have "ranked_by similarity faculty_id m k (map faculty_id ?fwe) rs"
    by (rule ranked_rank_dense)
  moreover have "subseq (map faculty_id ?fwe) (map faculty_id (faculty_table db))"
    using execute_subseq [OF e]
    by (meson subseq_filter_left subseq_map subseq_order.trans)
  ultimately show ?thesis by (rule ranked_by_subseq)
qed

lemma ranked_calculateAdvancedSimilarity:
  "\<exists>rs. calculateAdvancedSimilarity db tid opts = Inr rs
        \<and> ranked_by similarity faculty_id (threshold_of opts) (limit_of 10 opts)
            (map faculty_id (faculty_table db)) rs"
proof -
  let ?lex = "\<lparr>maxResults = Some (limit_of 10 opts), minSimilarity = Some (threshold_of opts),
               filterSchool = filterSchool opts, filterDepartment = filterDepartment opts,
               useAdvanced = None\<rparr>"
  let ?dense = "calculate_dense db tid (limit_of 10 opts) (threshold_of opts)
                  (filterSchool opts) (filterDepartment opts)"
  obtain ls where ls: "calculateSimilarFaculty db tid ?lex = Inr ls"
    using lexical_returns(1) by blast
  from ranked_calculateSimilarFaculty [OF ls]
  have rl: "ranked_by similarity faculty_id (threshold_of opts) (limit_of 10 opts)
              (map faculty_id (faculty_table db)) ls"
    by simp
  have "calculateAdvancedSimilarity db tid opts = Inr ls
        \<or> (\<exists>rs. ?dense = Inr rs \<and> calculateAdvancedSimilarity db tid opts = Inr rs)"
    using ls
    by (auto simp: calculateAdvancedSimilarity_def Let_def threshold_of_def limit_of_def
        split: sum.splits)
  with rl ranked_calculate_dense show ?thesis by blast
qed

lemma ranked_searchAdvancedSimilarity:
  "\<exists>rs. searchAdvancedSimilarity db q opts = Inr rs
        \<and> ranked_by similarity faculty_id (threshold_of opts) (limit_of 20 opts)
            (map faculty_id (faculty_table db)) rs"
proof -
  let ?lex = "\<lparr>maxResults = Some (limit_of 20 opts), minSimilarity = Some (threshold_of opts),
               filterSchool = filterSchool opts, filterDepartment = filterDepartment opts,
               useAdvanced = None\<rparr>"
  let ?dense = "search_dense db q (limit_of 20 opts) (threshold_of opts)
                  (filterSchool opts) (filterDepartment opts)"
  obtain ls where ls: "searchSimilarFaculty db q ?lex = Inr ls"
    using lexical_returns(2) by blast
  from ranked_searchSimilarFaculty [OF ls]
  have rl: "ranked_by similarity faculty_id (threshold_of opts) (limit_of 20 opts)
              (map faculty_id (faculty_table db)) ls"
    by simp
  have "searchAdvancedSimilarity db q opts = Inr ls
        \<or> (\<exists>rs. ?dense = Inr rs \<and> searchAdvancedSimilarity db q opts = Inr rs)"
    using ls
    by (auto simp: searchAdvancedSimilarity_def Let_def threshold_of_def limit_of_def
        split: sum.splits)
  with rl ranked_search_dense show ?thesis by blast
qed

text \<open>
  C6 (as amended): the lexical operations and the orchestrated operations always return a
  list, and that list, like every list that \<open>findSimilar\<close> returns, is ranked: every
  result has a similarity of at least the minimum, the list is sorted by similarity in
  descending order, results of equal similarity keep the order of the candidates, and,
  when the limit is not negative, the list is no longer than the limit.
\<close>

theorem ranking_postcondition:
  "(\<exists>rs. calculateSimilarFaculty db tid opts = Inr rs
        \<and> ranked_by similarity faculty_id (threshold_of opts) (limit_of 10 opts)
            (map faculty_id (faculty_table db)) rs)
   \<and> (\<exists>rs. searchSimilarFaculty db q opts = Inr rs
        \<and> ranked_by similarity faculty_id (threshold_of opts) (limit_of 20 opts)
            (map faculty_id (faculty_table db)) rs)
   \<and> (\<exists>rs. calculateAdvancedSimilarity db tid opts = Inr rs
        \<and> ranked_by similarity faculty_id (threshold_of opts) (limit_of 10 opts)
            (map faculty_id (faculty_table db)) rs)
   \<and> (\<exists>rs. searchAdvancedSimilarity db q opts = Inr rs
        \<and> ranked_by similarity faculty_id (threshold_of opts) (limit_of 20 opts)
            (map faculty_id (faculty_table db)) rs)
   \<and> (\<forall>scored. findSimilar qe cands topK minSim = Inr scored
        \<longrightarrow> ranked_by snd fst minSim topK (map fst cands) scored)"
proof (intro conjI allI impI)
  obtain rs where r: "calculateSimilarFaculty db tid opts = Inr rs"
    using lexical_returns(1) by blast
  from ranked_calculateSimilarFaculty [OF r] r
  show "\<exists>rs. calculateSimilarFaculty db tid opts = Inr rs
        \<and> ranked_by similarity faculty_id (threshold_of opts) (limit_of 10 opts)
            (map faculty_id (faculty_table db)) rs"
    by (auto simp: threshold_of_def limit_of_def)
next
  obtain rs where r: "searchSimilarFaculty db q opts = Inr rs"
    using lexical_returns(2) by blast
  from ranked_searchSimilarFaculty [OF r] r
  show "\<exists>rs. searchSimilarFaculty db q opts = Inr rs
        \<and> ranked_by similarity faculty_id (threshold_of opts) (limit_of 20 opts)
            (map faculty_id (faculty_table db)) rs"
    by (auto simp: threshold_of_def limit_of_def)
qed (simp_all add: ranked_calculateAdvancedSimilarity ranked_searchAdvancedSimilarity
      ranked_findSimilar)

lemma tokenize_robotics: "tokenize ''robotics'' = [''robotics'']"
  by (simp add: tokenize_def toLowerCase_def toLowerChar_def strip_punctuation_def
      is_space_def is_word_def stop_words_def)

lemma tokenize_genetics: "tokenize ''genetics'' = [''genetics'']"
  by (simp add: tokenize_def toLowerCase_def toLowerChar_def strip_punctuation_def
      is_space_def is_word_def stop_words_def)

lemma tfidf_cosine_same_axis: "(x::real) \<noteq> 0 \<Longrightarrow> cosineSimilarity_tfidf [0, x] [0, x] = 1"
  by (simp add: cosineSimilarity_tfidf_def)

lemma tfidf_cosine_orthogonal: "cosineSimilarity_tfidf [0, x] [y, 0] = 0"
  by (simp add: cosineSimilarity_tfidf_def)

lemma calculateSimilarFaculty_lexical_db:
  "calculateSimilarFaculty lexical_db ''a'' (no_options\<lparr>maxResults := k\<rparr>)
     = Inr (slice0 (case k of None \<Rightarrow> 10 | Some n \<Rightarrow> n)
              [with_similarity (demo_row ''b'' ''robotics'' NoEmbedding) 1,
               with_similarity (demo_row ''d'' ''robotics'' NoEmbedding) 1])"
  by (simp add: calculateSimilarFaculty_def no_options_def lexical_db_def
      execute_def with_filters_def truthy_def select_def from_faculty_def row_matches_def
      demo_row_def tokenize_robotics tokenize_genetics vocabulary_def new_Set_def set_add_def
      calculateIDF_def calculateTF_def calculateTFIDF_def count_up_def or0_def
      lexical_similarities_def tfidf_cosine_same_axis tfidf_cosine_orthogonal
      with_similarity_def array_sort_def by_similarity_desc_def Let_def)

lemma findSimilar_two_candidates:
  "findSimilar [1] [(''a'', [1]), (''b'', [1])] k 0 = Inr (slice0 k [(''a'', 1), (''b'', 1)])"
  by (simp add: findSimilar_def await_def cosineSimilarity_def array_sort_def)

theorem ranking_postcondition_witness:
  "calculateSimilarFaculty lexical_db ''a'' no_options
       = Inr [with_similarity (demo_row ''b'' ''robotics'' NoEmbedding) 1,
              with_similarity (demo_row ''d'' ''robotics'' NoEmbedding) 1]
   \<and> ranked_by similarity faculty_id (1 / 10) 10 [''a'', ''b'', ''c'', ''d'']
       [with_similarity (demo_row ''b'' ''robotics'' NoEmbedding) 1,
        with_similarity (demo_row ''d'' ''robotics'' NoEmbedding) 1]
   \<and> findSimilar [1] [(''a'', [1]), (''b'', [1])] 1 0 = Inr [(''a'', 1)]
   \<and> ranked_by snd fst 0 1 [''a'', ''b''] [(''a'', 1)]"
  using ranking_postcondition [where db = lexical_db and tid = "''a''" and opts = no_options
      and qe = "[1]" and cands = "[(''a'', [1]), (''b'', [1])]" and topK = 1 and minSim = 0]
    calculateSimilarFaculty_lexical_db [of None] findSimilar_two_candidates [of 1]
  by (simp add: slice0_def threshold_of_def limit_of_def no_options_def lexical_db_def
      demo_row_def)

text \<open>
  C6 as stated fails for a negative limit: with \<open>maxResults = -1\<close> the slice drops the
  last of the two matches and returns one result, which is more than the limit.
\<close>

theorem ranking_negative_limit_counterexample:
  "calculateSimilarFaculty lexical_db ''a'' (no_options\<lparr>maxResults := Some (- 1)\<rparr>)
       = Inr [with_similarity (demo_row ''b'' ''robotics'' NoEmbedding) 1]
   \<and> \<not> int (length [with_similarity (demo_row ''b'' ''robotics'' NoEmbedding) 1]) \<le> - 1"
  using calculateSimilarFaculty_lexical_db [of "Some (- 1)"] by (simp add: slice0_def)

section \<open>The pairwise similarity graph\<close>

lemma node_connections_Nil: "node_connections ei [] th = []"
  by (simp add: node_connections_def)

lemma node_connections_Cons:
  "node_connections ei ((fj, ej) # later) th =
     (case calculateCosineSimilarity ei ej of
        None \<Rightarrow> []
      | Some s \<Rightarrow> if th \<le> s
                  then [\<lparr>target = faculty_id fj, strength = s, weight = min (s * 5) 3\<rparr>]
                  else [])
     @ node_connections ei later th"
  by (simp add: node_connections_def)

lemma node_connections_set:
  "set (node_connections ei later th) =
     {\<lparr>target = faculty_id fj, strength = s, weight = min (s * 5) 3\<rparr> | fj ej s.
        (fj, ej) \<in> set later \<and> calculateCosineSimilarity ei ej = Some s \<and> th \<le> s}"
proof (induction later)
  case Nil
  show ?case by (simp add: node_connections_Nil)
next
  case (Cons n later)
  obtain fj ej where n: "n = (fj, ej)" by (cases n)
  show ?case unfolding n node_connections_Cons
    by (cases "calculateCosineSimilarity ei ej") (auto simp: Cons.IH)
qed

lemma node_connections_targets:
  "set (map target (node_connections ei later th)) \<subseteq> set (node_ids later)"
  by (force simp: node_connections_set node_ids_def)

lemma node_connections_distinct:
  "distinct (node_ids later) \<Longrightarrow> distinct (map target (node_connections ei later th))"
proof (induction later)
  case Nil
  show ?case by (simp add: node_connections_Nil)
next
  case (Cons n later)
  obtain fj ej where n: "n = (fj, ej)" by (cases n)
  from Cons.prems have "faculty_id fj \<notin> set (node_ids later)" and d: "distinct (node_ids later)"
    by (simp_all add: n node_ids_def)
  with node_connections_targets [of ei later th]
  have "faculty_id fj \<notin> set (map target (node_connections ei later th))" by blast
  with Cons.IH [OF d] show ?case unfolding n node_connections_Cons
    by (auto split: option.splits)
qed

lemma pairwise_links_Cons:
  "pairwise_links ((fi, ei) # later) th k =
     out_links (slice0 k (array_sort (\<lambda>a b. strength b - strength a)
                            (node_connections ei later th))) fi
     @ pairwise_links later th k"
  by (simp add: out_links_def)

lemma kept_connections:
  "set (slice0 k (array_sort cmp (node_connections ei later th)))
     \<subseteq> set (node_connections ei later th)"
  using set_slice0 [of k "array_sort cmp (node_connections ei later th)"]
  by (simp add: set_array_sort)

lemma kept_connections_distinct:
  assumes "distinct (node_ids later)"
  shows "distinct (map target (slice0 k (array_sort cmp (node_connections ei later th))))"
proof -
  have "distinct (map target (array_sort cmp (node_connections ei later th)))"
    using node_connections_distinct [OF assms] by (simp add: distinct_map_array_sort)
  then show ?thesis
    by (simp add: slice0_take take_map [symmetric] distinct_take)
qed

lemma pairwise_links_sound:
  "l \<in> set (pairwise_links nodes th k) \<Longrightarrow>
     source l \<in> set (node_ids nodes) \<and> target l \<in> set (node_ids nodes) \<and> th \<le> strength l"
proof (induction nodes)
  case Nil
  then show ?case by simp
next
  case (Cons n later)
  obtain fi ei where n: "n = (fi, ei)" by (cases n)
  from Cons.prems consider
      (head) "l \<in> set (out_links (slice0 k (array_sort (\<lambda>a b. strength b - strength a)
                                       (node_connections ei later th))) fi)"
    | (tail) "l \<in> set (pairwise_links later th k)"
    unfolding n pairwise_links_Cons by auto
  then show ?case
  proof cases
    case head
    then obtain c where c: "c \<in> set (node_connections ei later th)"
      and l: "source l = faculty_id fi" "target l = target c" "strength l = strength c"
      using kept_connections [of k "\<lambda>a b. strength b - strength a" ei later th]
      by (auto simp: out_links_def)
    from c node_connections_targets [of ei later th] have "target c \<in> set (node_ids later)"
      by auto
    moreover from c have "th \<le> strength c" by (auto simp: node_connections_set)
    ultimately show ?thesis using l by (simp add: n node_ids_def)
  next
    case tail
    from Cons.IH [OF tail] show ?thesis by (auto simp: node_ids_def)
  qed
qed

lemma pairwise_links_invariants:
  assumes "distinct (node_ids nodes)"
  shows "(\<forall>l \<in> set (pairwise_links nodes th k). source l \<noteq> target l)
       \<and> distinct (map endpoints (pairwise_links nodes th k))"
  using assms
proof (induction nodes)
  case Nil
  show ?case by simp
next
  case (Cons n later)
  obtain fi ei where n: "n = (fi, ei)" by (cases n)
  from Cons.prems have fresh: "faculty_id fi \<notin> set (node_ids later)"
    and d: "distinct (node_ids later)"
    by (simp_all add: n node_ids_def)
  let ?kept = "slice0 k (array_sort (\<lambda>a b. strength b - strength a) (node_connections ei later th))"
  let ?head = "out_links ?kept fi"
  let ?tail = "pairwise_links later th k"
  have kept_targets: "target c \<in> set (node_ids later)" if "c \<in> set ?kept" for c
    using that kept_connections [of k "\<lambda>a b. strength b - strength a" ei later th]
      node_connections_targets [of ei later th]
    by auto
  have head_ends: "source l = faculty_id fi \<and> target l \<in> set (node_ids later)"
    if "l \<in> set ?head" for l
    using that kept_targets by (auto simp: out_links_def)
  have tail_ends: "source l \<in> set (node_ids later) \<and> target l \<in> set (node_ids later)"
    if "l \<in> set ?tail" for l
    using pairwise_links_sound [OF that] by simp
  have self: "\<forall>l \<in> set (?head @ ?tail). source l \<noteq> target l"
    using head_ends fresh Cons.IH [OF d] by auto
  have "inj_on (\<lambda>t. {faculty_id fi, t}) (set (map target ?kept))"
    by (auto simp: inj_on_def doubleton_eq_iff)
  moreover have "map endpoints ?head = map (\<lambda>t. {faculty_id fi, t}) (map target ?kept)"
    by (simp add: out_links_def endpoints_def)
  ultimately have dh: "distinct (map endpoints ?head)"
    using kept_connections_distinct [OF d, of k "\<lambda>a b. strength b - strength a" ei th]
    by (simp only: distinct_map)
  have disj: "endpoints ` set ?head \<inter> endpoints ` set ?tail = {}"
  proof -
    have "faculty_id fi \<in> endpoints l" if "l \<in> set ?head" for l
      using head_ends [OF that] by (simp add: endpoints_def)
    moreover have "faculty_id fi \<notin> endpoints l" if "l \<in> set ?tail" for l
      using tail_ends [OF that] fresh by (auto simp: endpoints_def)
    ultimately show ?thesis by blast
  qed
  from dh disj Cons.IH [OF d] have "distinct (map endpoints (?head @ ?tail))"
    by simp
  with self show ?case unfolding n pairwise_links_Cons by blast
qed

lemma map_throwing_length: "map_throwing f xs = Inr ys \<Longrightarrow> length ys = length xs"
  using map_throwing_all2 [of f xs ys] by (auto dest: list_all2_lengthD)

lemma GET_network_status500:
  "GET_network db threshold maxConnections fSchool fDepartment
     = Status500 ''Failed to fetch faculty data''"
  by (simp add: GET_network_def await_builder_def)

text \<open>
  C7: for a faculty set (records with pairwise distinct ids, the primary key of the table),
  every threshold and every \<open>maxConnections\<close>, the edge list that the graph builder of
  the network route computes from the array of records has no edge from a node to
  itself, no two edges between the same unordered pair of nodes, and no edge whose
  similarity is below the threshold. The route itself never hands an array to the
  builder: it awaits the query without executing it and answers every request with
  status 500, so it emits no edge at all.
\<close>

theorem calculate_links_invariants:
  assumes "distinct (map faculty_id faculty)"
    and "calculate_links faculty threshold maxConnections = Inr links"
  shows "(\<forall>l \<in> set links. source l \<noteq> target l)
       \<and> distinct (map endpoints links)
       \<and> (\<forall>l \<in> set links. threshold \<le> strength l)
       \<and> GET_network db threshold maxConnections fSchool fDepartment
           = Status500 ''Failed to fetch faculty data''"
proof -
  from assms(2) obtain embeddings where
    e: "map_throwing route_embedding faculty = Inr embeddings"
    and l: "links = pairwise_links (zip faculty embeddings) threshold maxConnections"
    by (auto simp: calculate_links_def await_def split: sum.splits)
  have "map fst (zip faculty embeddings) = faculty"
    using map_throwing_length [OF e] by simp
  moreover have "node_ids (zip faculty embeddings)
                   = map faculty_id (map fst (zip faculty embeddings))"
    unfolding node_ids_def by simp
  ultimately have "node_ids (zip faculty embeddings) = map faculty_id faculty"
    by (simp only:)
  with assms(1) have "distinct (node_ids (zip faculty embeddings))" by simp
  from pairwise_links_invariants [OF this] pairwise_links_sound GET_network_status500
  show ?thesis unfolding l by blast
qed

lemma insert_cmp_insort:
  "insert_cmp (\<lambda>a b :: connection. strength b - strength a) x ys
     = insort_key (\<lambda>c. - strength c) x ys"
  by (induction ys) simp_all

lemma array_sort_sort_key:
  "array_sort (\<lambda>a b :: connection. strength b - strength a) xs
     = sort_key (\<lambda>c. - strength c) xs"
  by (induction xs) (simp_all add: array_sort_def insert_cmp_insort)

lemma drop_as_map_nth: "drop n xs = map ((!) xs) [n..<length xs]"
proof -
  have "drop n xs = drop n (map ((!) xs) [0..<length xs])" by (simp add: map_nth)
  also have "\<dots> = map ((!) xs) (drop n [0..<length xs])" by (simp only: drop_map)
  also have "\<dots> = map ((!) xs) [n..<length xs]" by (simp add: drop_upt)
  finally show ?thesis .
qed

lemma pairwise_links_concat:
  "pairwise_links nodes th k =
     concat (map (\<lambda>i. out_links (slice0 k (array_sort (\<lambda>a b. strength b - strength a)
                                     (node_connections (snd (nodes ! i)) (drop (Suc i) nodes) th)))
                         (fst (nodes ! i)))
                 [0..<length nodes])"
proof (induction nodes)
  case Nil
  show ?case by simp
next
  case (Cons n later)
  obtain fi ei where n: "n = (fi, ei)" by (cases n)
  have "[0..<length (n # later)] = 0 # map Suc [0..<length later]"
    by (simp add: upt_conv_Cons map_Suc_upt del: upt_Suc)
  then show ?case
    unfolding n pairwise_links_Cons Cons.IH
    by (simp add: comp_def del: upt_Suc)
qed

lemma node_connections_later:
  assumes e: "map_throwing route_embedding faculty = Inr embeddings" and i: "i < length faculty"
  shows "node_connections (embeddings ! i) (drop (Suc i) (zip faculty embeddings)) th
         = later_pairs faculty th i"
proof -
  have len: "length embeddings = length faculty" by (rule map_throwing_length [OF e])
  have emb: "route_embedding (faculty ! j) = Inr (embeddings ! j)" if "j < length faculty" for j
    using list_all2_nthD [OF map_throwing_all2 [OF e] that] .
  let ?nodes = "zip faculty embeddings"
  have "node_connections (embeddings ! i) (drop (Suc i) ?nodes) th
      = concat (map (\<lambda>j. case ?nodes ! j of (fj, ej) \<Rightarrow>
                    (case calculateCosineSimilarity (embeddings ! i) ej of
                      None \<Rightarrow> []
                    | Some s \<Rightarrow>
                        if s \<ge> th
                        then [\<lparr>target = faculty_id fj, strength = s, weight = min (s * 5) 3\<rparr>]
                        else [])) [Suc i..<length ?nodes])"
    unfolding node_connections_def drop_as_map_nth [of "Suc i" ?nodes]
    by (simp add: comp_def)
  also have "\<dots> = later_pairs faculty th i"
    unfolding later_pairs_def
    using i len emb by (intro arg_cong [where f = concat] map_cong) (auto simp: row_similarity_def)
  finally show ?thesis .
qed

lemma slice0_nonneg: "0 \<le> k \<Longrightarrow> slice0 k xs = take (nat k) xs"
  by (auto simp: slice0_def Let_def min_def)

lemma calculate_links_capped:
  assumes "calculate_links faculty threshold maxConnections = Inr links"
    and "0 \<le> maxConnections"
  shows "links = capped_links faculty threshold maxConnections"
proof -
  from assms(1) obtain embeddings where
    e: "map_throwing route_embedding faculty = Inr embeddings"
    and l: "links = pairwise_links (zip faculty embeddings) threshold maxConnections"
    by (auto simp: calculate_links_def await_def split: sum.splits)
  have len: "length embeddings = length faculty" by (rule map_throwing_length [OF e])
  show ?thesis
    unfolding l pairwise_links_concat capped_links_def top_later_def
    using len
    by (intro arg_cong [where f = concat] map_cong)
       (simp_all add: node_connections_later [OF e] slice0_nonneg [OF assms(2)]
          array_sort_sort_key)
qed

lemma later_pairs_targets:
  "c \<in> set (later_pairs faculty th i)
     \<Longrightarrow> \<exists>j. i < j \<and> j < length faculty \<and> target c = faculty_id (faculty ! j)"
proof -
  assume "c \<in> set (later_pairs faculty th i)"
  then obtain j where j: "j \<in> set [Suc i..<length faculty]"
    and c: "c \<in> set (case row_similarity (faculty ! i) (faculty ! j) of
                         None \<Rightarrow> []
                       | Some s \<Rightarrow>
                           if s \<ge> th
                           then [\<lparr>target = faculty_id (faculty ! j), strength = s,
                                  weight = min (s * 5) 3\<rparr>]
                           else [])"
    unfolding later_pairs_def by auto
  from c have "target c = faculty_id (faculty ! j)"
    by (auto split: option.splits if_splits)
  with j show ?thesis by (intro exI [of _ j]) simp
qed

lemma top_later_targets:
  assumes "c \<in> set (top_later faculty th k i)"
  shows "\<exists>j. i < j \<and> j < length faculty \<and> target c = faculty_id (faculty ! j)"
proof -
  from assms have "c \<in> set (sort_key (\<lambda>c. - strength c) (later_pairs faculty th i))"
    unfolding top_later_def by (rule in_set_takeD)
  then have "c \<in> set (later_pairs faculty th i)" by simp
  then show ?thesis by (rule later_pairs_targets)
qed

lemma capped_links_set:
  "l \<in> set (capped_links faculty th k) \<longleftrightarrow>
     (\<exists>i c. i < length faculty \<and> c \<in> set (top_later faculty th k i)
            \<and> l = \<lparr>target = target c, strength = strength c, weight = weight c,
                    source = faculty_id (faculty ! i)\<rparr>)"
  by (auto simp: capped_links_def out_links_def)

lemma capped_links_edge:
  assumes d: "distinct (map faculty_id faculty)" and ij: "i < j" "j < length faculty"
  shows "(\<exists>l \<in> set (capped_links faculty th k).
            endpoints l = {faculty_id (faculty ! i), faculty_id (faculty ! j)})
         \<longleftrightarrow> faculty_id (faculty ! j) \<in> set (map target (top_later faculty th k i))"
proof
  assume "\<exists>l \<in> set (capped_links faculty th k).
            endpoints l = {faculty_id (faculty ! i), faculty_id (faculty ! j)}"
  then obtain i' c where i': "i' < length faculty" and c: "c \<in> set (top_later faculty th k i')"
    and e: "{faculty_id (faculty ! i'), target c} = {faculty_id (faculty ! i), faculty_id (faculty ! j)}"
    by (auto simp: capped_links_set endpoints_def)
  from top_later_targets [OF c] obtain j' where j': "i' < j'" "j' < length faculty"
    "target c = faculty_id (faculty ! j')" by blast
  have inj: "faculty_id (faculty ! a) = faculty_id (faculty ! b) \<longleftrightarrow> a = b"
    if "a < length faculty" "b < length faculty" for a b
    using d that nth_eq_iff_index_eq [of "map faculty_id faculty" a b] by simp
  from e j'(3) have "(faculty_id (faculty ! i') = faculty_id (faculty ! i)
        \<and> faculty_id (faculty ! j') = faculty_id (faculty ! j))
      \<or> (faculty_id (faculty ! i') = faculty_id (faculty ! j)
        \<and> faculty_id (faculty ! j') = faculty_id (faculty ! i))"
    by (auto simp: doubleton_eq_iff)
  with inj i' j' ij have "i' = i \<and> j' = j" by (metis less_trans not_less_iff_gr_or_eq)
  with c j'(3) show "faculty_id (faculty ! j) \<in> set (map target (top_later faculty th k i))"
    by force
next
  assume "faculty_id (faculty ! j) \<in> set (map target (top_later faculty th k i))"
  then obtain c where c: "c \<in> set (top_later faculty th k i)"
    "target c = faculty_id (faculty ! j)" by auto
  let ?l = "\<lparr>target = target c, strength = strength c, weight = weight c,
             source = faculty_id (faculty ! i)\<rparr>"
  from ij c(1) have "?l \<in> set (capped_links faculty th k)"
    unfolding capped_links_set by (intro exI [of _ i] exI [of _ c]) simp
  moreover have "endpoints ?l = {faculty_id (faculty ! i), faculty_id (faculty ! j)}"
    using c(2) by (simp add: endpoints_def)
  ultimately show "\<exists>l \<in> set (capped_links faculty th k).
            endpoints l = {faculty_id (faculty ! i), faculty_id (faculty ! j)}"
    by blast
qed

text \<open>
  C8 (as amended): for a non-negative \<open>maxConnections\<close> the edge list of the graph
  builder is the concatenation, in input order of the records, of one list per record
  \<open>i\<close>: its pairs with the later records \<open>j > i\<close>, in input order, whose similarity
  reaches the threshold, sorted by descending similarity with ties keeping the input
  order, and cut to the first \<open>maxConnections\<close>; each edge carries the similarity of
  the pair and the weight \<open>min (similarity * 5) 3\<close>. So, for records with distinct
  ids, an edge between \<open>i < j\<close> appears exactly when \<open>j\<close> is in this top list of \<open>i\<close>;
  whether \<open>j\<close> ranks \<open>i\<close> plays no role.
\<close>

theorem degree_cap_over_later_records:
  assumes "calculate_links faculty threshold maxConnections = Inr links"
    and "0 \<le> maxConnections"
  shows "links = capped_links faculty threshold maxConnections
       \<and> (distinct (map faculty_id faculty) \<longrightarrow>
            (\<forall>i j. i < j \<and> j < length faculty \<longrightarrow>
               ((\<exists>l \<in> set links.
                    endpoints l = {faculty_id (faculty ! i), faculty_id (faculty ! j)})
                \<longleftrightarrow> faculty_id (faculty ! j)
                      \<in> set (map target (top_later faculty threshold maxConnections i)))))"
  unfolding calculate_links_capped [OF assms]
  using capped_links_edge [of faculty _ _ threshold maxConnections] by blast

lemma length_plane_vector: "length (plane_vector x y) = 384"
  by (simp add: plane_vector_def)

lemma route_embedding_plane:
  "route_embedding (demo_row i kw (Embedding (plane_vector x y))) = Inr (plane_vector x y)"
  by (simp add: route_embedding_def json_parse_def await_def demo_row_def length_plane_vector)

lemma dot_plane: "dot (plane_vector a b) (plane_vector c d) = a * c + b * d"
  by (simp add: plane_vector_def dot_def sum_list_replicate)

lemma norm_plane: "euclidean_norm (plane_vector a b) = sqrt (a * a + b * b)"
  by (simp add: plane_vector_def euclidean_norm_def sum_list_replicate)

lemma cosine_plane:
  "calculateCosineSimilarity (plane_vector a b) (plane_vector c d) =
     Some (if sqrt (a * a + b * b) = 0 \<or> sqrt (c * c + d * d) = 0 then 0
           else (a * c + b * d) / (sqrt (a * a + b * b) * sqrt (c * c + d * d)))"
  by (simp only: calculateCosineSimilarity_equal_length length_plane_vector dot_plane norm_plane)

lemma graph_similarities:
  "calculateCosineSimilarity (plane_vector 1 0) (plane_vector (4 / 5) (- (3 / 5))) = Some (4 / 5)"
  "calculateCosineSimilarity (plane_vector 1 0) (plane_vector (3 / 5) (4 / 5)) = Some (3 / 5)"
  "calculateCosineSimilarity (plane_vector (4 / 5) (- (3 / 5))) (plane_vector (3 / 5) (4 / 5)) = Some 0"
  "calculateCosineSimilarity (plane_vector (4 / 5) (- (3 / 5))) (plane_vector 1 0) = Some (4 / 5)"
  "calculateCosineSimilarity (plane_vector (3 / 5) (4 / 5)) (plane_vector 1 0) = Some (3 / 5)"
  "calculateCosineSimilarity (plane_vector (3 / 5) (4 / 5)) (plane_vector (4 / 5) (- (3 / 5))) = Some 0"
  by (simp_all add: cosine_plane)

lemma calculate_links_graph:
  "calculate_links graph_faculty 0 1 =
     Inr [\<lparr>target = ''B'', strength = 4 / 5, weight = 3, source = ''A''\<rparr>,
          \<lparr>target = ''C'', strength = 0, weight = 0, source = ''B''\<rparr>]"
  by (simp add: calculate_links_def graph_faculty_def route_embedding_plane await_def
      node_connections_def graph_similarities array_sort_def slice0_def)
     (simp add: demo_row_def)

lemma calculate_links_graph_wide:
  "calculate_links graph_faculty (1 / 2) 10 =
     Inr [\<lparr>target = ''B'', strength = 4 / 5, weight = 3, source = ''A''\<rparr>,
          \<lparr>target = ''C'', strength = 3 / 5, weight = 3, source = ''A''\<rparr>]"
  by (simp add: calculate_links_def graph_faculty_def route_embedding_plane await_def
      node_connections_def graph_similarities array_sort_def slice0_def)
     (simp add: demo_row_def)

lemma spec_top_graph:
  "spec_top graph_nodes 0 1 (graph_nodes ! 0) = [''B'']"
  "spec_top graph_nodes 0 1 (graph_nodes ! 1) = [''A'']"
  "spec_top graph_nodes 0 1 (graph_nodes ! 2) = [''A'']"
  by (simp_all add: spec_top_def spec_kept_pairs_def graph_nodes_def graph_faculty_def
      demo_row_def node_connections_def graph_similarities array_sort_def slice0_def)

lemma graph_faculty_distinct: "distinct (map faculty_id graph_faculty)"
  by (simp add: graph_faculty_def demo_row_def)

lemma execute_table_db:
  "\<forall>f \<in> set rows. embedding f \<noteq> NoEmbedding
   \<Longrightarrow> execute (table_db rows) (network_query None None) = Some rows"
  by (simp add: execute_def table_db_def network_query_def with_filters_def truthy_def
      not_is_null_def select_def from_faculty_def row_matches_def is_null_def filter_id_conv)

lemma tie_similarities:
  "calculateCosineSimilarity (plane_vector 1 0) (plane_vector (3 / 5) (4 / 5)) = Some (3 / 5)"
  "calculateCosineSimilarity (plane_vector 1 0) (plane_vector (3 / 5) (- (4 / 5))) = Some (3 / 5)"
  "calculateCosineSimilarity (plane_vector (3 / 5) (4 / 5)) (plane_vector (3 / 5) (- (4 / 5)))
     = Some (- (7 / 25))"
  by (simp_all add: cosine_plane)

lemma calculate_links_tie:
  "calculate_links tie_faculty 0 1 =
     Inr [\<lparr>target = ''B'', strength = 3 / 5, weight = 3, source = ''A''\<rparr>]"
  by (simp add: calculate_links_def tie_faculty_def route_embedding_plane await_def
      node_connections_def tie_similarities array_sort_def slice0_def)
     (simp add: demo_row_def)

lemma tie_faculty_distinct: "distinct (map faculty_id tie_faculty)"
  by (simp add: tie_faculty_def demo_row_def)

lemma graph_faculty_embedded: "\<forall>f \<in> set graph_faculty. embedding f \<noteq> NoEmbedding"
  by (simp add: graph_faculty_def demo_row_def)

theorem calculate_links_invariants_witness:
  "distinct (map faculty_id graph_faculty)
   \<and> execute (table_db graph_faculty) (network_query None None) = Some graph_faculty
   \<and> GET_network (table_db graph_faculty) (1 / 2) 10 None None
       = Status500 ''Failed to fetch faculty data''
   \<and> calculate_links graph_faculty (1 / 2) 10 =
       Inr [\<lparr>target = ''B'', strength = 4 / 5, weight = 3, source = ''A''\<rparr>,
            \<lparr>target = ''C'', strength = 3 / 5, weight = 3, source = ''A''\<rparr>]
   \<and> distinct (map endpoints
                 [\<lparr>target = ''B'', strength = 4 / 5, weight = 3, source = ''A''\<rparr>,
                  \<lparr>target = ''C'', strength = 3 / 5, weight = 3, source = ''A''\<rparr>])"
  using calculate_links_invariants [OF graph_faculty_distinct calculate_links_graph_wide,
      of "table_db graph_faculty" None None]
    graph_faculty_distinct calculate_links_graph_wide
    execute_table_db [OF graph_faculty_embedded]
  by blast

theorem degree_cap_over_later_records_witness:
  "calculate_links tie_faculty 0 1 =
       Inr [\<lparr>target = ''B'', strength = 3 / 5, weight = 3, source = ''A''\<rparr>]
   \<and> (0::int) \<le> 1
   \<and> capped_links tie_faculty 0 1 =
       [\<lparr>target = ''B'', strength = 3 / 5, weight = 3, source = ''A''\<rparr>]
   \<and> distinct (map faculty_id tie_faculty)
   \<and> ''C'' \<notin> set (map target (top_later tie_faculty 0 1 0))"
proof -
  let ?links = "[\<lparr>target = ''B'', strength = 3 / 5, weight = 3, source = ''A''\<rparr>]"
  have k: "(0::int) \<le> 1" by simp
  note cap = degree_cap_over_later_records [OF calculate_links_tie k]
  from cap have eq: "?links = capped_links tie_faculty 0 1" by (rule conjunct1)
  from cap tie_faculty_distinct
  have "\<forall>i j. i < j \<and> j < length tie_faculty \<longrightarrow>
               ((\<exists>l \<in> set ?links.
                    endpoints l = {faculty_id (tie_faculty ! i), faculty_id (tie_faculty ! j)})
                \<longleftrightarrow> faculty_id (tie_faculty ! j)
                      \<in> set (map target (top_later tie_faculty 0 1 i)))"
    by blast
  moreover have "(0::nat) < 2 \<and> 2 < length tie_faculty" by (simp add: tie_faculty_def)
  ultimately have iff: "(\<exists>l \<in> set ?links.
                    endpoints l = {faculty_id (tie_faculty ! 0), faculty_id (tie_faculty ! 2)})
                \<longleftrightarrow> faculty_id (tie_faculty ! 2)
                      \<in> set (map target (top_later tie_faculty 0 1 0))"
    by blast
  have "\<not> (\<exists>l \<in> set ?links.
             endpoints l = {faculty_id (tie_faculty ! 0), faculty_id (tie_faculty ! 2)})"
    by (simp add: tie_faculty_def demo_row_def endpoints_def doubleton_eq_iff)
  with iff have "faculty_id (tie_faculty ! 2)
                   \<notin> set (map target (top_later tie_faculty 0 1 0))"
    by blast
  moreover have "faculty_id (tie_faculty ! 2) = ''C''"
    by (simp add: tie_faculty_def demo_row_def)
  ultimately have "''C'' \<notin> set (map target (top_later tie_faculty 0 1 0))"
    by metis
  with calculate_links_tie k eq [symmetric] tie_faculty_distinct show ?thesis by blast
qed

text \<open>
  C8 as stated fails: on the three records A, B, C with unit vectors (similarities
  AB = 4/5, AC = 3/5, BC = 0), which all carry an embedding, with threshold 0 and
  \<open>maxConnections = 1\<close> the graph builder yields the edges A-B and B-C. By the wording
  of the specification C ranks A first among all its pairs, so the edge A-C would
  appear, and neither B nor C ranks the other first, so the edge B-C would not.
\<close>

theorem degree_cap_counterexample:
  "execute (table_db graph_faculty) (network_query None None) = Some graph_faculty
   \<and> calculate_links graph_faculty 0 1 =
       Inr [\<lparr>target = ''B'', strength = 4 / 5, weight = 3, source = ''A''\<rparr>,
            \<lparr>target = ''C'', strength = 0, weight = 0, source = ''B''\<rparr>]
   \<and> spec_edge graph_nodes 0 1 (graph_nodes ! 0) (graph_nodes ! 2)
   \<and> \<not> spec_edge graph_nodes 0 1 (graph_nodes ! 1) (graph_nodes ! 2)"
proof -
  have "spec_edge graph_nodes 0 1 (graph_nodes ! 0) (graph_nodes ! 2)"
    unfolding spec_edge_def spec_top_graph
    by (simp add: graph_nodes_def graph_faculty_def demo_row_def)
  moreover have "\<not> spec_edge graph_nodes 0 1 (graph_nodes ! 1) (graph_nodes ! 2)"
    unfolding spec_edge_def spec_top_graph
    by (simp add: graph_nodes_def graph_faculty_def demo_row_def)
  ultimately show ?thesis
    using calculate_links_graph execute_table_db [OF graph_faculty_embedded] by blast
qed

subsection \<open>Two departments in the order of the table\<close>

lemma physicist_biologist_embedded:
  "\<forall>f \<in> set [physicist, biologist]. embedding f \<noteq> NoEmbedding"
  by (simp add: physicist_def biologist_def)

lemma calculate_links_physicist_biologist:
  "calculate_links [physicist, biologist] (1 / 5) 10 = Inr []"
  by (simp add: calculate_links_def physicist_def biologist_def route_embedding_def
      json_parse_def await_def length_plane_vector node_connections_def cosine_plane
      array_sort_def slice0_def)

theorem cluster_id_first_occurrence_witness:
  "execute (table_db [physicist, biologist]) (network_query None None)
     = Some [physicist, biologist]
   \<and> 1 < length [physicist, biologist]
   \<and> clusterId (build_nodes [physicist, biologist] ! 1) = 1
   \<and> color (build_nodes [physicist, biologist] ! 1) = Some ''#3b82f6''"
  using cluster_id_first_occurrence [of 1 "[physicist, biologist]"]
    execute_table_db [OF physicist_biologist_embedded]
  by (simp add: physicist_def biologist_def at_index_def colors_def)

text \<open>
  C9 as stated fails: with a physicist listed before a biologist, two records that carry
  an embedding and between which the graph builder finds no edge, the physicist's
  cluster id is 0, while the index of its department among the sorted departments is 1.
\<close>

theorem cluster_id_sorted_counterexample:
  "execute (table_db [physicist, biologist]) (network_query None None)
     = Some [physicist, biologist]
   \<and> calculate_links [physicist, biologist] (1 / 5) 10 = Inr []
   \<and> clusterId (build_nodes [physicist, biologist] ! 0) = 0
   \<and> indexOf (sort (departments_of [physicist, biologist]))
         (department ([physicist, biologist] ! 0)) = 1"
proof -
  have "clusterId (build_nodes [physicist, biologist] ! 0) = 0
   \<and> indexOf (sort (departments_of [physicist, biologist]))
         (department ([physicist, biologist] ! 0)) = 1"
    by (simp add: build_nodes_def departments_of_def new_Set_def set_add_def physicist_def
        biologist_def)
  with execute_table_db [OF physicist_biologist_embedded] calculate_links_physicist_biologist
  show ?thesis by blast
qed

section \<open>The orchestrator: unknown targets, empty sets and fallback\<close>

lemma whereConditions_with_filters:
  "whereConditions (with_filters fs fd (select c from_faculty))
     = whereConditions (with_filters fs fd (select c' from_faculty))"
  by (simp add: with_filters_def select_def eq_def from_faculty_def Let_def)

lemma execute_filtered:
  "execute db (lexical_query opts) = Some rows \<Longrightarrow> rows = filtered_set db opts"
  "execute db (dense_query opts) = Some rows \<Longrightarrow> rows = filtered_set db opts"
  using whereConditions_with_filters [of "filterSchool opts" "filterDepartment opts" dense_fields lexical_fields]
  by (auto simp: execute_def filtered_set_def lexical_query_def dense_query_def split: if_splits)

lemma find_None_absent: "tid \<notin> set (map faculty_id rows) \<Longrightarrow> find (\<lambda>f. faculty_id f = tid) rows = None"
  by (auto simp: find_None_iff)

lemma calculateSimilarFaculty_absent:
  assumes "\<And>rows. execute db (lexical_query opts) = Some rows \<Longrightarrow> tid \<notin> set (map faculty_id rows)"
  shows "calculateSimilarFaculty db tid opts = Inr []"
proof (cases "execute db (lexical_query opts)")
  case None
  then show ?thesis by (simp add: calculateSimilarFaculty_def lexical_query_def)
next
  case (Some rows)
  from find_None_absent [OF assms [OF Some]] Some show ?thesis
    by (simp add: calculateSimilarFaculty_def lexical_query_def)
qed

lemma lexical_options_resolved:
  "calculateSimilarFaculty db tid
     \<lparr>maxResults = Some (case maxResults opts of None \<Rightarrow> 10 | Some n \<Rightarrow> n),
      minSimilarity = Some (case minSimilarity opts of None \<Rightarrow> 1 / 10 | Some m \<Rightarrow> m),
      filterSchool = filterSchool opts, filterDepartment = filterDepartment opts,
      useAdvanced = None\<rparr>
   = calculateSimilarFaculty db tid opts"
  "searchSimilarFaculty db q
     \<lparr>maxResults = Some (case maxResults opts of None \<Rightarrow> 20 | Some n \<Rightarrow> n),
      minSimilarity = Some (case minSimilarity opts of None \<Rightarrow> 1 / 10 | Some m \<Rightarrow> m),
      filterSchool = filterSchool opts, filterDepartment = filterDepartment opts,
      useAdvanced = None\<rparr>
   = searchSimilarFaculty db q opts"
  by (simp_all add: calculateSimilarFaculty_def searchSimilarFaculty_def)

lemma advanced_cases:
  "(\<exists>rs. calculate_dense db tid (limit_of 10 opts) (threshold_of opts)
            (filterSchool opts) (filterDepartment opts) = Inr rs
         \<and> calculateAdvancedSimilarity db tid opts = Inr rs)
   \<or> calculateAdvancedSimilarity db tid opts = calculateSimilarFaculty db tid opts"
  "(\<exists>rs. search_dense db q (limit_of 20 opts) (threshold_of opts)
            (filterSchool opts) (filterDepartment opts) = Inr rs
         \<and> searchAdvancedSimilarity db q opts = Inr rs)
   \<or> searchAdvancedSimilarity db q opts = searchSimilarFaculty db q opts"
  by (auto simp: calculateAdvancedSimilarity_def searchAdvancedSimilarity_def Let_def
      lexical_options_resolved limit_of_def threshold_of_def split: sum.splits)

lemma advanced_fallback:
  "useAdvanced opts = Some False \<or> \<not> testEmbeddingEnvironment db
     \<or> isl (search_dense db q (limit_of 20 opts) (threshold_of opts)
              (filterSchool opts) (filterDepartment opts))
   \<Longrightarrow> searchAdvancedSimilarity db q opts = searchSimilarFaculty db q opts"
  "useAdvanced opts = Some False \<or> \<not> testEmbeddingEnvironment db
     \<or> isl (calculate_dense db tid (limit_of 10 opts) (threshold_of opts)
              (filterSchool opts) (filterDepartment opts))
   \<Longrightarrow> calculateAdvancedSimilarity db tid opts = calculateSimilarFaculty db tid opts"
  by (auto simp: calculateAdvancedSimilarity_def searchAdvancedSimilarity_def Let_def
      lexical_options_resolved limit_of_def threshold_of_def split: sum.splits)

lemma single_absent:
  assumes "tid \<notin> set (map faculty_id (faculty_table db))"
  shows "single db (target_query tid) = None"
proof -
  have "filter (row_matches [Equals ''faculty_id'' tid]) (faculty_table db) = []"
    using assms by (auto simp: filter_empty_conv row_matches_def column_def)
  then show ?thesis
    by (simp add: single_def execute_def target_query_def eq_def select_def from_faculty_def)
qed

text \<open>
  C1 (as amended): in record mode an unknown target is not an error. The lexical
  \<open>calculateSimilarFaculty\<close> returns the empty list whenever the target id is absent
  from the fetched (filtered) set, and \<open>calculateAdvancedSimilarity\<close> returns the empty
  list whenever the target id is absent from the faculty table.
\<close>

theorem unknown_target_returns_empty:
  "((\<forall>rows. execute db (lexical_query opts) = Some rows \<longrightarrow> tid \<notin> set (map faculty_id rows))
      \<longrightarrow> calculateSimilarFaculty db tid opts = Inr [])
   \<and> (tid \<notin> set (map faculty_id (faculty_table db))
      \<longrightarrow> calculateAdvancedSimilarity db tid opts = Inr [])"
proof (intro conjI impI)
  assume "\<forall>rows. execute db (lexical_query opts) = Some rows \<longrightarrow> tid \<notin> set (map faculty_id rows)"
  then show "calculateSimilarFaculty db tid opts = Inr []"
    by (intro calculateSimilarFaculty_absent) blast
next
  assume a: "tid \<notin> set (map faculty_id (faculty_table db))"
  have "tid \<notin> set (map faculty_id rows)" if "execute db (lexical_query opts) = Some rows" for rows
    using a that by (auto simp: execute_def split: if_splits)
  then have lex: "calculateSimilarFaculty db tid opts = Inr []"
    by (rule calculateSimilarFaculty_absent)
  have "calculate_dense db tid (limit_of 10 opts) (threshold_of opts)
          (filterSchool opts) (filterDepartment opts) = Inr []"
    using single_absent [OF a] by (simp add: calculate_dense_def target_query_def)
  with lex advanced_cases(1) [of db tid opts]
  show "calculateAdvancedSimilarity db tid opts = Inr []" by auto
qed

lemma lexical_db_absent: "''zzz'' \<notin> set (map faculty_id (faculty_table lexical_db))"
  by (simp add: lexical_db_def demo_row_def)

theorem unknown_target_returns_empty_witness:
  "execute lexical_db (lexical_query no_options) = Some (faculty_table lexical_db)
   \<and> ''zzz'' \<notin> set (map faculty_id (faculty_table lexical_db))
   \<and> calculateSimilarFaculty lexical_db ''zzz'' no_options = Inr []
   \<and> calculateAdvancedSimilarity lexical_db ''zzz'' no_options = Inr []"
proof -
  have e: "execute lexical_db (lexical_query no_options) = Some (faculty_table lexical_db)"
    by (simp add: execute_def lexical_query_def no_options_def with_filters_def truthy_def
        select_def from_faculty_def row_matches_def lexical_db_def)
  then have "\<forall>rows. execute lexical_db (lexical_query no_options) = Some rows
       \<longrightarrow> ''zzz'' \<notin> set (map faculty_id rows)"
    using lexical_db_absent by simp
  with unknown_target_returns_empty [of lexical_db no_options "''zzz''"] lexical_db_absent e
  show ?thesis by blast
qed

lemma cleanText_testText: "cleanText testText = testText"
  by (simp add: cleanText_def testText_def toLowerCase_def toLowerChar_def strip_punctuation_def
      trim_def is_space_def is_word_def)

lemma abs_sum_plane: "foldl (\<lambda>a b. a + \<bar>b\<bar>) 0 (plane_vector x y) = \<bar>x\<bar> + \<bar>y\<bar>"
  by (simp add: foldl_add_sum_list plane_vector_def sum_list_replicate)

lemma probe_dense_db: "testEmbeddingEnvironment dense_db"
  by (simp add: testEmbeddingEnvironment_def testEmbeddingService_def generateEmbedding_def
      cleanText_testText dense_db_def length_plane_vector abs_sum_plane)
     (simp add: testText_def)

lemma probe_offline_db: "\<not> testEmbeddingEnvironment offline_db"
  by (simp add: testEmbeddingEnvironment_def testEmbeddingService_def generateEmbedding_def
      cleanText_testText offline_db_def dense_db_def)
     (simp add: testText_def)

text \<open>
  C1 as stated fails: for an id that no record carries, both operations are fulfilled
  with the empty list instead of being rejected (here the provider probe succeeds, so
  the advanced operation answers from its dense branch).
\<close>

theorem unknown_target_counterexample:
  "calculateSimilarFaculty dense_db ''zzz'' no_options = Inr []
   \<and> calculateAdvancedSimilarity dense_db ''zzz'' no_options = Inr []"
proof -
  have "calculateSimilarFaculty dense_db ''zzz'' no_options = Inr []"
    by (simp add: calculateSimilarFaculty_def no_options_def dense_db_def execute_def
        with_filters_def truthy_def select_def from_faculty_def row_matches_def demo_row_def)
  moreover have "calculate_dense dense_db ''zzz'' 10 (1 / 10) None None = Inr []"
    by (simp add: calculate_dense_def single_def execute_def eq_def select_def from_faculty_def
        dense_db_def row_matches_def column_def demo_row_def)
  ultimately show ?thesis
    using probe_dense_db
    by (simp add: calculateAdvancedSimilarity_def no_options_def)
qed

lemma lexical_similarities_Nil: "lexical_similarities v idf terms m [] = []"
  by (simp add: lexical_similarities_def)

lemma searchSimilarFaculty_empty:
  assumes "filtered_set db opts = []"
  shows "searchSimilarFaculty db q opts = Inr []"
proof (cases "execute db (lexical_query opts)")
  case None
  then show ?thesis by (simp add: searchSimilarFaculty_def lexical_query_def)
next
  case (Some rows)
  with execute_filtered(1) [OF Some] assms have "execute db (lexical_query opts) = Some []"
    by simp
  then show ?thesis
    by (simp add: searchSimilarFaculty_def lexical_query_def [symmetric] Let_def
        lexical_similarities_Nil array_sort_def slice0_def)
qed

lemma calculateSimilarFaculty_empty:
  assumes "filtered_set db opts = []"
  shows "calculateSimilarFaculty db tid opts = Inr []"
proof (rule calculateSimilarFaculty_absent)
  fix rows assume "execute db (lexical_query opts) = Some rows"
  from execute_filtered(1) [OF this] assms show "tid \<notin> set (map faculty_id rows)" by simp
qed

lemma search_dense_empty:
  assumes "filtered_set db opts = []"
  shows "isl (search_dense db q k m (filterSchool opts) (filterDepartment opts))"
proof (cases "execute db (dense_query opts)")
  case None
  then show ?thesis by (simp add: search_dense_def dense_query_def)
next
  case (Some rows)
  with execute_filtered(2) [OF Some] assms have "execute db (dense_query opts) = Some []"
    by simp
  then show ?thesis by (simp add: search_dense_def dense_query_def [symmetric])
qed

lemma calculate_dense_empty:
  assumes "filtered_set db opts = []"
  shows "isl (calculate_dense db tid k m (filterSchool opts) (filterDepartment opts))
         \<or> calculate_dense db tid k m (filterSchool opts) (filterDepartment opts) = Inr []"
proof (cases "execute db (dense_query opts)")
  case None
  then show ?thesis
    by (simp add: calculate_dense_def dense_query_def split: option.splits)
next
  case (Some rows)
  with execute_filtered(2) [OF Some] assms have "execute db (dense_query opts) = Some []"
    by simp
  then show ?thesis
    by (simp add: calculate_dense_def dense_query_def [symmetric] split: option.splits)
qed

text \<open>
  C3 (as amended): the match and search operations return a bare list of similarity
  results, which carries no provenance tag; over an empty filtered set each of them is
  fulfilled with the empty list, whatever the database and the provider do.
\<close>

theorem empty_filtered_set_returns_empty:
  assumes "filtered_set db opts = []"
  shows "searchAdvancedSimilarity db q opts = Inr []
       \<and> searchSimilarFaculty db q opts = Inr []
       \<and> calculateAdvancedSimilarity db tid opts = Inr []
       \<and> calculateSimilarFaculty db tid opts = Inr []"
proof -
  note lex = searchSimilarFaculty_empty [OF assms, of q] calculateSimilarFaculty_empty [OF assms, of tid]
  have "searchAdvancedSimilarity db q opts = Inr []"
    using advanced_cases(2) [of db q opts] lex(1)
      search_dense_empty [OF assms, of q "limit_of 20 opts" "threshold_of opts"]
    by auto
  moreover have "calculateAdvancedSimilarity db tid opts = Inr []"
    using advanced_cases(1) [of db tid opts] lex(2)
      calculate_dense_empty [OF assms, of tid "limit_of 10 opts" "threshold_of opts"]
    by auto
  ultimately show ?thesis using lex by simp
qed

theorem empty_filtered_set_returns_empty_witness:
  "filtered_set lexical_db (no_options\<lparr>filterSchool := Some ''Law''\<rparr>) = []
   \<and> searchAdvancedSimilarity lexical_db ''robotics'' (no_options\<lparr>filterSchool := Some ''Law''\<rparr>)
       = Inr []
   \<and> calculateAdvancedSimilarity lexical_db ''a'' (no_options\<lparr>filterSchool := Some ''Law''\<rparr>)
       = Inr []"
proof -
  have "filtered_set lexical_db (no_options\<lparr>filterSchool := Some ''Law''\<rparr>) = []"
    by (simp add: filtered_set_def lexical_query_def no_options_def with_filters_def truthy_def
        eq_def select_def from_faculty_def lexical_db_def row_matches_def column_def demo_row_def)
  with empty_filtered_set_returns_empty [OF this] show ?thesis by simp
qed

lemma cosineSimilarity_plane:
  "cosineSimilarity (plane_vector a b) (plane_vector c d) =
     Inr (if sqrt (a * a + b * b) = 0 \<or> sqrt (c * c + d * d) = 0 then 0
          else (a * c + b * d) / (sqrt (a * a + b * b) * sqrt (c * c + d * d)))"
  by (simp only: cosineSimilarity_equal_length length_plane_vector dot_plane norm_plane)

lemma search_dense_dense_db:
  "search_dense dense_db ''robotics'' 20 (1 / 10) None None
     = Inr [with_similarity (demo_row ''a'' ''robotics'' (Embedding (plane_vector 1 0))) 1]"
  by (simp add: search_dense_def dense_db_def execute_def with_filters_def truthy_def select_def
      from_faculty_def row_matches_def has_embedding_def generateEmbedding_def cleanText_robotics
      rank_dense_def await_def json_parse_def real_embedding_def length_plane_vector
      findSimilarFaculty_def findSimilar_def cosineSimilarity_plane array_sort_def slice0_def
      with_similarity_def info_of_def demo_row_def)

lemma searchSimilarFaculty_offline_db:
  "searchSimilarFaculty (dense_db\<lparr>pipeline := p\<rparr>) ''robotics'' no_options
     = Inr [with_similarity (demo_row ''a'' ''robotics'' (Embedding (plane_vector 1 0))) 1]"
  by (simp add: searchSimilarFaculty_def no_options_def dense_db_def
      execute_def with_filters_def truthy_def select_def from_faculty_def row_matches_def
      demo_row_def tokenize_robotics tokenize_genetics vocabulary_def new_Set_def set_add_def
      calculateIDF_def calculateTF_def calculateTFIDF_def count_up_def or0_def
      lexical_similarities_def tfidf_cosine_same_axis tfidf_cosine_orthogonal with_similarity_def
      array_sort_def slice0_def by_similarity_desc_def Let_def)

text \<open>
  C3 as stated fails: a search answered by the dense path and a search answered by the
  lexical path return the same value, so the returned value cannot tell which path
  produced it.
\<close>

theorem provenance_counterexample:
  "search_provenance dense_db ''robotics'' no_options = Dense
   \<and> search_provenance offline_db ''robotics'' no_options = Lexical
   \<and> searchAdvancedSimilarity dense_db ''robotics'' no_options
       = Inr [with_similarity (demo_row ''a'' ''robotics'' (Embedding (plane_vector 1 0))) 1]
   \<and> searchAdvancedSimilarity offline_db ''robotics'' no_options
       = Inr [with_similarity (demo_row ''a'' ''robotics'' (Embedding (plane_vector 1 0))) 1]"
proof -
  have "search_provenance dense_db ''robotics'' no_options = Dense"
    using probe_dense_db search_dense_dense_db
    by (simp add: search_provenance_def no_options_def limit_of_def threshold_of_def)
  moreover have "search_provenance offline_db ''robotics'' no_options = Lexical"
    using probe_offline_db by (simp add: search_provenance_def)
  moreover have "searchAdvancedSimilarity dense_db ''robotics'' no_options
       = Inr [with_similarity (demo_row ''a'' ''robotics'' (Embedding (plane_vector 1 0))) 1]"
    using probe_dense_db search_dense_dense_db
    by (simp add: searchAdvancedSimilarity_def no_options_def)
  moreover have "searchAdvancedSimilarity offline_db ''robotics'' no_options
       = Inr [with_similarity (demo_row ''a'' ''robotics'' (Embedding (plane_vector 1 0))) 1]"
    using probe_offline_db searchSimilarFaculty_offline_db [of "\<lambda>t. Inl ProviderFailure"]
    by (simp add: advanced_fallback(1) offline_db_def)
  ultimately show ?thesis by blast
qed

lemma map_throwing_fails:
  "x \<in> set xs \<Longrightarrow> isl (f x) \<Longrightarrow> isl (map_throwing f xs)"
  by (induction xs) (auto split: sum.splits)

lemma map_throwing_succeeds:
  "(\<And>x. x \<in> set xs \<Longrightarrow> f x = Inr (g x)) \<Longrightarrow> map_throwing f xs = Inr (map g xs)"
  by (induction xs) (auto split: sum.splits)

lemma await_isl: "isl p \<Longrightarrow> isl (await p k)"
  by (cases p) (simp_all add: await_def)

lemma rank_dense_unusable:
  assumes "f \<in> set fwe" and "\<not> usable_embedding f"
  shows "isl (rank_dense qe fwe k m)"
proof (cases "map_throwing (\<lambda>f. json_parse (embedding f)) fwe")
  case (Inl e)
  then show ?thesis by (simp add: rank_dense_def await_def)
next
  case (Inr padded)
  from assms(1) obtain i where i: "i < length fwe" "fwe ! i = f"
    by (auto simp: in_set_conv_nth)
  have "length padded = length fwe" by (rule map_throwing_length [OF Inr])
  with i(1) have "padded ! i \<in> set padded" by simp
  moreover have "json_parse (embedding f) = Inr (padded ! i)"
    using list_all2_nthD [OF map_throwing_all2 [OF Inr] i(1)] i(2) by simp
  ultimately obtain v where v: "v \<in> set padded" "json_parse (embedding f) = Inr v"
    by blast
  from v(2) have "embedding f = Embedding v"
    by (cases "embedding f") (simp_all add: json_parse_def)
  with assms(2) have "isl (real_embedding v)"
    by (simp add: usable_embedding_def real_embedding_def)
  with v(1) have "isl (map_throwing real_embedding padded)"
    by (rule map_throwing_fails)
  then obtain e where "map_throwing real_embedding padded = Inl e"
    by (cases "map_throwing real_embedding padded") auto
  with Inr show ?thesis by (simp add: rank_dense_def await_def)
qed

lemma search_dense_fails:
  assumes "execute db (dense_query opts) = None
           \<or> (\<exists>rows. execute db (dense_query opts) = Some rows
                \<and> (filter has_embedding rows = []
                    \<or> isl (generateEmbedding db q)
                    \<or> (\<exists>f \<in> set rows. has_embedding f \<and> \<not> usable_embedding f)))"
  shows "isl (search_dense db q k m (filterSchool opts) (filterDepartment opts))"
proof (cases "execute db (dense_query opts)")
  case None
  then show ?thesis by (simp add: search_dense_def dense_query_def)
next
  case (Some rows)
  let ?fwe = "filter has_embedding rows"
  from assms Some have c: "?fwe = [] \<or> isl (generateEmbedding db q)
      \<or> (\<exists>f \<in> set ?fwe. \<not> usable_embedding f)"
    by auto
  have sd: "search_dense db q k m (filterSchool opts) (filterDepartment opts)
          = (if ?fwe = [] then Inl NoEmbeddingsAvailable
             else await (generateEmbedding db q) (\<lambda>qe. rank_dense qe ?fwe k m))"
    using Some by (simp add: search_dense_def dense_query_def Let_def)
  show ?thesis
  proof (cases "?fwe = [] \<or> isl (generateEmbedding db q)")
    case True
    then show ?thesis unfolding sd by (auto simp: await_isl)
  next
    case False
    with c obtain f where "f \<in> set ?fwe" "\<not> usable_embedding f" by blast
    from rank_dense_unusable [OF this] False show ?thesis
      unfolding sd by (cases "generateEmbedding db q") (auto simp: await_def)
  qed
qed

lemma calculate_dense_fails:
  assumes "single db (target_query tid) = Some tgt"
    and "execute db (dense_query opts) = Some rows"
    and "filter has_embedding (filter (\<lambda>f. faculty_id f \<noteq> tid) rows) = []
         \<or> (has_embedding tgt \<and> \<not> usable_embedding tgt)
         \<or> (\<not> has_embedding tgt \<and> isl (generateEmbedding db (keywords tgt)))
         \<or> (\<exists>f \<in> set rows. faculty_id f \<noteq> tid \<and> has_embedding f \<and> \<not> usable_embedding f)"
  shows "isl (calculate_dense db tid k m (filterSchool opts) (filterDepartment opts))"
proof -
  let ?fwe = "filter has_embedding (filter (\<lambda>f. faculty_id f \<noteq> tid) rows)"
  let ?te = "if has_embedding tgt
             then await (json_parse (embedding tgt))
                    (\<lambda>storedEmbedding.
                       if length storedEmbedding = 1536
                       then extractReal384Embedding storedEmbedding
                       else if length storedEmbedding = 384 then Inr storedEmbedding
                       else Inl (UnexpectedEmbeddingSize (length storedEmbedding)))
             else generateEmbedding db (keywords tgt)"
  have cd: "calculate_dense db tid k m (filterSchool opts) (filterDepartment opts)
          = (if ?fwe = [] then Inl NoEmbeddingsAvailable
             else await ?te (\<lambda>te. rank_dense te ?fwe k m))"
    using assms(1,2) by (simp add: calculate_dense_def dense_query_def target_query_def Let_def)
  have te: "isl ?te" if "has_embedding tgt \<and> \<not> usable_embedding tgt"
    using that
    by (cases "embedding tgt")
       (auto simp: usable_embedding_def json_parse_def await_def has_embedding_def)
  from assms(3) consider (empty) "?fwe = []"
    | (tgt) "isl ?te"
    | (cand) "\<exists>f \<in> set ?fwe. \<not> usable_embedding f"
    using te by auto
  then show ?thesis
  proof cases
    case empty
    then show ?thesis unfolding cd by simp
  next
    case tgt
    then show ?thesis unfolding cd by (simp add: await_isl)
  next
    case cand
    then obtain f where "f \<in> set ?fwe" "\<not> usable_embedding f" by blast
    from rank_dense_unusable [OF this] show ?thesis
      unfolding cd by (cases ?te) (auto simp: await_def)
  qed
qed

text \<open>
  Where the fallback holds: the orchestrated search equals the lexical search with the
  same options whenever the dense path is switched off, the provider probe fails, the
  dense candidate query fails, no candidate carries an embedding, the query embedding
  cannot be generated, or a stored embedding cannot be parsed or has a size other than
  384 or 1536. The orchestrated match equals the lexical match whenever the dense path
  is switched off, the probe fails, or, with the target and the candidates fetched, no
  other candidate carries an embedding, the target embedding cannot be read or
  generated, or a stored candidate embedding is not usable.
\<close>

lemma fallback_on_dense_failure:
  "useAdvanced opts = Some False \<or> \<not> testEmbeddingEnvironment db
     \<or> execute db (dense_query opts) = None
     \<or> (\<exists>rows. execute db (dense_query opts) = Some rows
          \<and> (filter has_embedding rows = []
              \<or> isl (generateEmbedding db q)
              \<or> (\<exists>f \<in> set rows. has_embedding f \<and> \<not> usable_embedding f)))
   \<Longrightarrow> searchAdvancedSimilarity db q opts = searchSimilarFaculty db q opts"
  "useAdvanced opts = Some False \<or> \<not> testEmbeddingEnvironment db
     \<or> (\<exists>tf rows. single db (target_query tid) = Some tf
          \<and> execute db (dense_query opts) = Some rows
          \<and> (filter has_embedding (filter (\<lambda>f. faculty_id f \<noteq> tid) rows) = []
              \<or> (has_embedding tf \<and> \<not> usable_embedding tf)
              \<or> (\<not> has_embedding tf \<and> isl (generateEmbedding db (keywords tf)))
              \<or> (\<exists>f \<in> set rows. faculty_id f \<noteq> tid \<and> has_embedding f
                    \<and> \<not> usable_embedding f)))
   \<Longrightarrow> calculateAdvancedSimilarity db tid opts = calculateSimilarFaculty db tid opts"
proof -
  assume "useAdvanced opts = Some False \<or> \<not> testEmbeddingEnvironment db
       \<or> execute db (dense_query opts) = None
       \<or> (\<exists>rows. execute db (dense_query opts) = Some rows
            \<and> (filter has_embedding rows = []
                \<or> isl (generateEmbedding db q)
                \<or> (\<exists>f \<in> set rows. has_embedding f \<and> \<not> usable_embedding f)))"
  then have "useAdvanced opts = Some False \<or> \<not> testEmbeddingEnvironment db
     \<or> isl (search_dense db q (limit_of 20 opts) (threshold_of opts)
              (filterSchool opts) (filterDepartment opts))"
    using search_dense_fails [of db opts q] by blast
  then show "searchAdvancedSimilarity db q opts = searchSimilarFaculty db q opts"
    by (rule advanced_fallback(1))
next
  assume "useAdvanced opts = Some False \<or> \<not> testEmbeddingEnvironment db
       \<or> (\<exists>tf rows. single db (target_query tid) = Some tf
            \<and> execute db (dense_query opts) = Some rows
            \<and> (filter has_embedding (filter (\<lambda>f. faculty_id f \<noteq> tid) rows) = []
                \<or> (has_embedding tf \<and> \<not> usable_embedding tf)
                \<or> (\<not> has_embedding tf \<and> isl (generateEmbedding db (keywords tf)))
                \<or> (\<exists>f \<in> set rows. faculty_id f \<noteq> tid \<and> has_embedding f
                      \<and> \<not> usable_embedding f)))"
  then have "useAdvanced opts = Some False \<or> \<not> testEmbeddingEnvironment db
     \<or> isl (calculate_dense db tid (limit_of 10 opts) (threshold_of opts)
              (filterSchool opts) (filterDepartment opts))"
    using calculate_dense_fails [of db tid _ opts] by blast
  then show "calculateAdvancedSimilarity db tid opts = calculateSimilarFaculty db tid opts"
    by (rule advanced_fallback(2))
qed

lemma probe_plane_provider:
  "testEmbeddingEnvironment (db\<lparr>pipeline := (\<lambda>t. Inr (plane_vector 1 0))\<rparr>)"
  by (simp add: testEmbeddingEnvironment_def testEmbeddingService_def generateEmbedding_def
      cleanText_testText length_plane_vector abs_sum_plane)
     (simp add: testText_def)

lemma lexical_same_rows:
  assumes "execute db (lexical_query opts) = execute db' (lexical_query opts)"
  shows "calculateSimilarFaculty db tid opts = calculateSimilarFaculty db' tid opts"
  using assms by (simp add: calculateSimilarFaculty_def lexical_query_def)

lemma outage_db_facts:
  "execute no_embedding_column_db (lexical_query no_options)
     = execute lexical_db (lexical_query no_options)"
  "execute lookup_outage_db (lexical_query no_options)
     = execute lexical_db (lexical_query no_options)"
  by (simp_all add: execute_def no_embedding_column_db_def lookup_outage_db_def
      lexical_query_def no_options_def with_filters_def truthy_def select_def from_faculty_def
      lexical_fields_def dense_fields_def lexical_db_def)

text \<open>
  C2 fails in the code: when a statement of the dense branch of
  \<open>calculateAdvancedSimilarity\<close> is rejected by the database, the operation returns the
  empty list instead of the result of the lexical match. With a working provider and a
  table that rejects the statement selecting the \<open>embedding\<close> column, the match for
  record \<open>a\<close> is empty although the lexical match with the same arguments finds \<open>b\<close>
  and \<open>d\<close>; on the same database \<open>searchAdvancedSimilarity\<close>, which throws on the
  rejected statement, equals the lexical search. The same happens when the lookup of the
  target record is rejected.
\<close>

theorem dense_fetch_failure_returns_empty:
  "testEmbeddingEnvironment no_embedding_column_db
   \<and> single no_embedding_column_db (target_query ''a'')
       = Some (demo_row ''a'' ''robotics'' NoEmbedding)
   \<and> execute no_embedding_column_db (dense_query no_options) = None
   \<and> calculateAdvancedSimilarity no_embedding_column_db ''a'' no_options = Inr []
   \<and> calculateSimilarFaculty no_embedding_column_db ''a'' no_options
       = Inr [with_similarity (demo_row ''b'' ''robotics'' NoEmbedding) 1,
              with_similarity (demo_row ''d'' ''robotics'' NoEmbedding) 1]
   \<and> searchAdvancedSimilarity no_embedding_column_db ''robotics'' no_options
       = searchSimilarFaculty no_embedding_column_db ''robotics'' no_options
   \<and> search_dense no_embedding_column_db ''robotics'' 20 (1 / 10) None None
       = Inl DatabaseQueryFailed
   \<and> testEmbeddingEnvironment lookup_outage_db
   \<and> single lookup_outage_db (target_query ''a'') = None
   \<and> calculateAdvancedSimilarity lookup_outage_db ''a'' no_options = Inr []
   \<and> calculateSimilarFaculty lookup_outage_db ''a'' no_options
       = Inr [with_similarity (demo_row ''b'' ''robotics'' NoEmbedding) 1,
              with_similarity (demo_row ''d'' ''robotics'' NoEmbedding) 1]"
proof -
  have p1: "testEmbeddingEnvironment no_embedding_column_db"
    unfolding no_embedding_column_db_def by (rule probe_plane_provider)
  have p2: "testEmbeddingEnvironment lookup_outage_db"
    unfolding lookup_outage_db_def by (rule probe_plane_provider)
  have s1: "single no_embedding_column_db (target_query ''a'')
              = Some (demo_row ''a'' ''robotics'' NoEmbedding)"
    by (simp add: single_def execute_def target_query_def eq_def select_def from_faculty_def
        no_embedding_column_db_def lexical_db_def row_matches_def column_def dense_fields_def
        demo_row_def)
  have e1: "execute no_embedding_column_db (dense_query no_options) = None"
    by (simp add: execute_def dense_query_def no_options_def with_filters_def truthy_def
        select_def from_faculty_def no_embedding_column_db_def)
  have s2: "single lookup_outage_db (target_query ''a'') = None"
    by (simp add: single_def execute_def target_query_def eq_def select_def from_faculty_def
        lookup_outage_db_def)
  have c1: "calculate_dense no_embedding_column_db ''a'' 10 (1 / 10) None None = Inr []"
    using s1 e1
    by (simp add: calculate_dense_def target_query_def dense_query_def no_options_def
        with_filters_def truthy_def)
  have c2: "calculate_dense lookup_outage_db ''a'' 10 (1 / 10) None None = Inr []"
    using s2 by (simp add: calculate_dense_def target_query_def)
  have a1: "calculateAdvancedSimilarity no_embedding_column_db ''a'' no_options = Inr []"
    using p1 c1 by (simp add: calculateAdvancedSimilarity_def no_options_def)
  have a2: "calculateAdvancedSimilarity lookup_outage_db ''a'' no_options = Inr []"
    using p2 c2 by (simp add: calculateAdvancedSimilarity_def no_options_def)
  have f: "searchAdvancedSimilarity no_embedding_column_db ''robotics'' no_options
             = searchSimilarFaculty no_embedding_column_db ''robotics'' no_options"
    using e1 by (intro fallback_on_dense_failure(1)) simp
  have l1: "calculateSimilarFaculty no_embedding_column_db ''a'' no_options
       = Inr [with_similarity (demo_row ''b'' ''robotics'' NoEmbedding) 1,
              with_similarity (demo_row ''d'' ''robotics'' NoEmbedding) 1]"
    using calculateSimilarFaculty_lexical_db [of None]
    by (simp add: lexical_same_rows [OF outage_db_facts(1)] slice0_def)
       (simp add: no_options_def)
  have l2: "calculateSimilarFaculty lookup_outage_db ''a'' no_options
       = Inr [with_similarity (demo_row ''b'' ''robotics'' NoEmbedding) 1,
              with_similarity (demo_row ''d'' ''robotics'' NoEmbedding) 1]"
    using calculateSimilarFaculty_lexical_db [of None]
    by (simp add: lexical_same_rows [OF outage_db_facts(2)] slice0_def)
       (simp add: no_options_def)
  have l3: "search_dense no_embedding_column_db ''robotics'' 20 (1 / 10) None None
       = Inl DatabaseQueryFailed"
    using e1
    by (simp add: search_dense_def dense_query_def no_options_def with_filters_def truthy_def)
  from p1 p2 s1 e1 s2 a1 a2 f l1 l2 l3 show ?thesis by simp
qed

end
